theory Spec2Isabelle
  imports Main "HOL-Library.Word" "HOL-Library.Signed_Division"
begin

unbundle bit_operations_syntax

section \<open>Machine types and platform constants\<close>

text \<open>
  The sources are C++ for Win32 on x86: \<open>int\<close>, \<open>int32_t\<close> and \<open>LONG\<close> are 32-bit
  two's complement, \<open>DWORD\<close> and \<open>uint32_t\<close> are 32-bit unsigned, and packed structs are
  copied to the wire byte by byte in little-endian order.

  Values that only travel (wire fields, tick counts, virtual-key codes) are words.
  Screen coordinates and layout positions, which the code adds and compares as
  \<open>int\<close>, are modelled as \<open>int\<close>, and every sum, difference and product the code
  forms in an \<open>int\<close> is wrapped to 32 bits by \<open>i32\<close>, the way the x86 instructions
  that the compiler emits for them do.
\<close>

type_synonym byte = "8 word"
type_synonym u16 = "16 word"
type_synonym u32 = "32 word"

text \<open>The value a 32-bit \<open>int\<close> holds after arithmetic with the exact result \<open>v\<close>.\<close>

definition i32 :: "int \<Rightarrow> int" where
  "i32 v = (v + 2147483648) mod 4294967296 - 2147483648"

text \<open>\<open>enum class ScreenEdge : uint8_t\<close> (common.hpp). A received value is any byte.\<close>

definition ScreenEdge_NONE :: byte where "ScreenEdge_NONE = 0"
definition ScreenEdge_LEFT :: byte where "ScreenEdge_LEFT = 1"
definition ScreenEdge_RIGHT :: byte where "ScreenEdge_RIGHT = 2"
definition ScreenEdge_TOP :: byte where "ScreenEdge_TOP = 3"
definition ScreenEdge_BOTTOM :: byte where "ScreenEdge_BOTTOM = 4"

text \<open>\<open>enum class MouseButton : uint8_t\<close> (common.hpp).\<close>

definition MouseButton_LEFT :: byte where "MouseButton_LEFT = 1"
definition MouseButton_MIDDLE :: byte where "MouseButton_MIDDLE = 2"
definition MouseButton_RIGHT :: byte where "MouseButton_RIGHT = 3"
definition MouseButton_BUTTON4 :: byte where "MouseButton_BUTTON4 = 4"
definition MouseButton_BUTTON5 :: byte where "MouseButton_BUTTON5 = 5"

text \<open>\<open>enum class EventType : uint8_t\<close> (common.hpp).\<close>

definition EventType_MOUSE_MOVE :: byte where "EventType_MOUSE_MOVE = 1"
definition EventType_MOUSE_BUTTON :: byte where "EventType_MOUSE_BUTTON = 2"
definition EventType_MOUSE_SCROLL :: byte where "EventType_MOUSE_SCROLL = 3"
definition EventType_KEY_PRESS :: byte where "EventType_KEY_PRESS = 4"
definition EventType_KEY_RELEASE :: byte where "EventType_KEY_RELEASE = 5"
definition EventType_CLIPBOARD :: byte where "EventType_CLIPBOARD = 6"
definition EventType_KEEPALIVE :: byte where "EventType_KEEPALIVE = 7"
definition EventType_SCREEN_INFO :: byte where "EventType_SCREEN_INFO = 8"
definition EventType_SWITCH_SCREEN :: byte where "EventType_SWITCH_SCREEN = 9"

text \<open>
  Virtual-key codes, window messages and \<open>WHEEL_DELTA\<close> come from the Windows SDK
  header \<open>winuser.h\<close>, which the sources include and which is not part of the
  repository. The values below are the SDK's; what follows uses of them only that
  the codes differ from one another, and that \<open>WHEEL_DELTA\<close> is 120.
\<close>

definition VK_TAB :: u32 where "VK_TAB = 0x09"
definition VK_CONTROL :: u32 where "VK_CONTROL = 0x11"
definition VK_MENU :: u32 where "VK_MENU = 0x12"
definition VK_ESCAPE :: u32 where "VK_ESCAPE = 0x1B"
definition VK_DELETE :: u32 where "VK_DELETE = 0x2E"
definition VK_LWIN :: u32 where "VK_LWIN = 0x5B"
definition VK_RWIN :: u32 where "VK_RWIN = 0x5C"
definition VK_F4 :: u32 where "VK_F4 = 0x73"
definition VK_F8 :: u32 where "VK_F8 = 0x77"
definition VK_SCROLL :: u32 where "VK_SCROLL = 0x91"
definition VK_LCONTROL :: u32 where "VK_LCONTROL = 0xA2"
definition VK_RCONTROL :: u32 where "VK_RCONTROL = 0xA3"
definition VK_LMENU :: u32 where "VK_LMENU = 0xA4"
definition VK_RMENU :: u32 where "VK_RMENU = 0xA5"

definition WM_QUIT :: u32 where "WM_QUIT = 0x0012"
definition WM_KEYDOWN :: u32 where "WM_KEYDOWN = 0x0100"
definition WM_KEYUP :: u32 where "WM_KEYUP = 0x0101"
definition WM_SYSKEYDOWN :: u32 where "WM_SYSKEYDOWN = 0x0104"
definition WM_SYSKEYUP :: u32 where "WM_SYSKEYUP = 0x0105"
definition WM_MOUSEMOVE :: u32 where "WM_MOUSEMOVE = 0x0200"
definition WM_LBUTTONDOWN :: u32 where "WM_LBUTTONDOWN = 0x0201"
definition WM_LBUTTONUP :: u32 where "WM_LBUTTONUP = 0x0202"
definition WM_RBUTTONDOWN :: u32 where "WM_RBUTTONDOWN = 0x0204"
definition WM_RBUTTONUP :: u32 where "WM_RBUTTONUP = 0x0205"
definition WM_MBUTTONDOWN :: u32 where "WM_MBUTTONDOWN = 0x0207"
definition WM_MBUTTONUP :: u32 where "WM_MBUTTONUP = 0x0208"
definition WM_MOUSEWHEEL :: u32 where "WM_MOUSEWHEEL = 0x020A"
definition WM_XBUTTONDOWN :: u32 where "WM_XBUTTONDOWN = 0x020B"
definition WM_XBUTTONUP :: u32 where "WM_XBUTTONUP = 0x020C"
definition WM_MOUSEHWHEEL :: u32 where "WM_MOUSEHWHEEL = 0x020E"

definition XBUTTON1 :: u16 where "XBUTTON1 = 1"
definition XBUTTON2 :: u16 where "XBUTTON2 = 2"
definition WHEEL_DELTA :: int where "WHEEL_DELTA = 120"

text \<open>\<open>HIWORD(d)\<close> and \<open>GET_WHEEL_DELTA_WPARAM(d) = (short) HIWORD(d)\<close>.\<close>

definition HIWORD :: "u32 \<Rightarrow> u16" where
  "HIWORD d = ucast (drop_bit 16 d)"

definition GET_WHEEL_DELTA_WPARAM :: "u32 \<Rightarrow> int" where
  "GET_WHEEL_DELTA_WPARAM d = sint (HIWORD d)"

section \<open>Input interceptor (input_capture.hpp)\<close>

text \<open>
  The fields of \<open>class InputCapture\<close> that the hooks read and write. \<open>captured\<close> is
  the suppress flag, \<open>last_activity\<close> a \<open>GetTickCount\<close> value (milliseconds, DWORD).
  \<open>hook_thread_joinable\<close> is \<open>hook_thread_.joinable()\<close>. \<open>hook_queue\<close> is the message
  queue of the hook thread, oldest message first: \<open>PostThreadMessage\<close> with
  \<open>hook_thread_id_\<close> appends to it, the thread's \<open>GetMessage\<close> takes from its front.
\<close>

record InputCapture =
  ic_screen_width :: int
  ic_screen_height :: int
  last_x :: int
  last_y :: int
  running :: bool
  captured :: bool
  last_activity :: u32
  hook_thread_joinable :: bool
  hook_queue :: "u32 list"

text \<open>\<open>capture_input(capture)\<close>; \<open>now\<close> is what \<open>GetTickCount()\<close> returns.\<close>

definition capture_input :: "u32 \<Rightarrow> bool \<Rightarrow> InputCapture \<Rightarrow> InputCapture" where
  "capture_input now capture ic =
     (if capture then ic\<lparr>captured := capture, last_activity := now\<rparr>
      else ic\<lparr>captured := capture\<rparr>)"

definition warp_cursor :: "int \<Rightarrow> int \<Rightarrow> InputCapture \<Rightarrow> InputCapture" where
  "warp_cursor x y ic = ic\<lparr>last_x := x, last_y := y\<rparr>"

text \<open>
  \<open>start()\<close> sets \<open>running_\<close> and creates the hook thread, whose queue starts empty.
  \<open>stop()\<close> clears \<open>running_\<close> and \<open>captured_\<close>, and if the thread is joinable posts
  \<open>WM_QUIT\<close> to it and joins it. This is the only place where the program posts a
  message to the hook thread: every \<open>PostMessage\<close> of gui_app.cpp goes to the main
  window, which belongs to another thread.
\<close>

definition start :: "InputCapture \<Rightarrow> InputCapture" where
  "start ic = ic\<lparr>running := True, hook_thread_joinable := True, hook_queue := []\<rparr>"

definition stop :: "InputCapture \<Rightarrow> InputCapture" where
  "stop ic =
     (let ic1 = ic\<lparr>running := False, captured := False\<rparr>
      in if hook_thread_joinable ic1
         then ic1\<lparr>hook_queue := hook_queue ic1 @ [WM_QUIT], hook_thread_joinable := False\<rparr>
         else ic1)"

text \<open>
  The check in the body of the message loop of \<open>hook_thread_func\<close>, after
  \<open>DispatchMessage\<close>. \<open>now - last_activity\<close> is DWORD subtraction (it wraps).
\<close>

definition safety_timeout_check :: "u32 \<Rightarrow> InputCapture \<Rightarrow> InputCapture" where
  "safety_timeout_check now ic =
     (if captured ic then
        (if now - last_activity ic > 30000 then ic\<lparr>captured := False\<rparr> else ic)
      else ic)"

text \<open>
  One turn of \<open>while (running_ && GetMessage(&msg, nullptr, 0, 0)) { ... }\<close> in
  \<open>hook_thread_func\<close>, the thread getting to run at tick \<open>now\<close>. \<open>GetMessage\<close> takes
  the first message of the thread's queue. With the queue empty it does not return:
  the thread stays inside the call, from where the system calls the two hook
  procedures, so the turn changes nothing. For \<open>WM_QUIT\<close> it returns zero and the loop
  is left. For any other message the body runs (\<open>TranslateMessage\<close> and
  \<open>DispatchMessage\<close> have nothing to do for a thread without windows) and ends with
  the safety check.
\<close>

definition hook_thread_turn :: "u32 \<Rightarrow> InputCapture \<Rightarrow> InputCapture" where
  "hook_thread_turn now ic =
     (if \<not> running ic then ic
      else
        (case hook_queue ic of
           [] \<Rightarrow> ic
         | msg # rest \<Rightarrow>
             (if msg = WM_QUIT then ic\<lparr>hook_queue := rest\<rparr>
              else safety_timeout_check now (ic\<lparr>hook_queue := rest\<rparr>))))"

definition is_emergency_key :: "u32 \<Rightarrow> bool \<Rightarrow> bool \<Rightarrow> bool" where
  "is_emergency_key vkCode ctrl_down alt_down =
     (if vkCode = VK_DELETE \<and> ctrl_down \<and> alt_down then True
      else if vkCode = VK_CONTROL \<or> vkCode = VK_LCONTROL \<or> vkCode = VK_RCONTROL then True
      else if vkCode = VK_MENU \<or> vkCode = VK_LMENU \<or> vkCode = VK_RMENU then True
      else if vkCode = VK_DELETE then True
      else if vkCode = VK_SCROLL then True
      else if vkCode = VK_ESCAPE \<and> ctrl_down \<and> alt_down then True
      else if vkCode = VK_LWIN \<or> vkCode = VK_RWIN then True
      else if vkCode = VK_ESCAPE \<and> ctrl_down then True
      else if vkCode = VK_TAB \<and> alt_down then True
      else if vkCode = VK_F4 \<and> alt_down then True
      else False)"

text \<open>
  What a hook procedure returns: \<open>return 1\<close> keeps the event from the local system,
  \<open>return CallNextHookEx(...)\<close> lets it through.
\<close>

datatype LRESULT = Blocked | CallNextHookEx

record KBDLLHOOKSTRUCT =
  vkCode :: u32
  scanCode :: u32
  flags :: u32

record MSLLHOOKSTRUCT =
  pt_x :: int
  pt_y :: int
  mouseData :: u32

section \<open>Topology and application state (gui_app.cpp)\<close>

record ComputerInfo =
  name :: string
  ip :: string
  port :: u16
  screen_width :: int
  screen_height :: int
  is_server :: bool
  is_connected :: bool
  last_seen :: u32
  layout_x :: int
  layout_y :: int

text \<open>
  The part of \<open>class AppState\<close> that the server callbacks and the discovery thread
  use. \<open>active_client\<close> is \<open>g_app.active_client.is_valid()\<close>; \<open>computers\<close> is
  \<open>g_app.layout.computers\<close>; \<open>wire\<close> collects, oldest first, the buffers that a
  \<open>send\<close> on the client socket accepted; \<open>os_cursor\<close> is the position last given
  to \<open>SetCursorPos\<close>. Status-bar messages are not modelled.
\<close>

record AppState =
  computer_name :: string
  local_info :: ComputerInfo
  computers :: "ComputerInfo list"
  active_client :: bool
  active_on_remote :: bool
  input_capture :: InputCapture
  wire :: "byte list list"
  os_cursor :: "int \<times> int"

text \<open>
  What the operating system supplies during one callback: the tick count, the
  \<open>steady_clock\<close> timestamp put into headers, the return value of the one
  \<open>send\<close> the callback may make, and \<open>GetSystemMetrics(SM_CYSCREEN)\<close>.
\<close>

record env =
  tick :: u32
  steady_ms :: u32
  sent :: int
  sm_cyscreen :: int

type_synonym move_callback = "int \<Rightarrow> int \<Rightarrow> int \<Rightarrow> int \<Rightarrow> AppState \<Rightarrow> AppState"
type_synonym button_callback = "byte \<Rightarrow> bool \<Rightarrow> AppState \<Rightarrow> AppState"
type_synonym scroll_callback = "int \<Rightarrow> int \<Rightarrow> AppState \<Rightarrow> AppState"
type_synonym key_callback = "u32 \<Rightarrow> u32 \<Rightarrow> u32 \<Rightarrow> bool \<Rightarrow> AppState \<Rightarrow> AppState"

definition set_captured :: "bool \<Rightarrow> AppState \<Rightarrow> AppState" where
  "set_captured c s = s\<lparr>input_capture := (input_capture s)\<lparr>captured := c\<rparr>\<rparr>"

definition touch_activity :: "u32 \<Rightarrow> AppState \<Rightarrow> AppState" where
  "touch_activity now s =
     (if captured (input_capture s)
      then s\<lparr>input_capture := (input_capture s)\<lparr>last_activity := now\<rparr>\<rparr>
      else s)"

text \<open>
  \<open>InputCapture::keyboard_hook_proc\<close>, with \<open>instance_\<close> set (the hook is installed by
  the instance's own thread). \<open>ctrl_down\<close>, \<open>alt_down\<close> are the \<open>GetAsyncKeyState\<close>
  readings; \<open>key_cb\<close> is \<open>key_callback_\<close>.
\<close>

definition keyboard_hook_proc ::
  "key_callback \<Rightarrow> u32 \<Rightarrow> int \<Rightarrow> u32 \<Rightarrow> KBDLLHOOKSTRUCT \<Rightarrow> bool \<Rightarrow> bool \<Rightarrow> AppState
     \<Rightarrow> LRESULT \<times> AppState" where
  "keyboard_hook_proc key_cb now nCode wParam kb ctrl_down alt_down s =
     (if nCode \<ge> 0 then
        (let pressed = (wParam = WM_KEYDOWN \<or> wParam = WM_SYSKEYDOWN) in
         if is_emergency_key (vkCode kb) ctrl_down alt_down then
           (let s1 = (if vkCode kb = VK_SCROLL \<and> pressed
                      then (if captured (input_capture s) then set_captured False s else s)
                      else s);
                s2 = (if vkCode kb = VK_ESCAPE \<and> ctrl_down \<and> alt_down \<and> pressed
                      then set_captured False s1 else s1)
            in (CallNextHookEx, s2))
         else
           (let s1 = touch_activity now s;
                s2 = key_cb (vkCode kb) (scanCode kb) (flags kb) pressed s1
            in if captured (input_capture s2) then (Blocked, s2) else (CallNextHookEx, s2)))
      else (CallNextHookEx, s))"

text \<open>\<open>InputCapture::mouse_hook_proc\<close> with the three mouse callbacks.\<close>

definition xbutton :: "u32 \<Rightarrow> byte" where
  "xbutton md = (if HIWORD md = XBUTTON1 then MouseButton_BUTTON4 else MouseButton_BUTTON5)"

definition mouse_dispatch ::
  "move_callback \<Rightarrow> button_callback \<Rightarrow> scroll_callback \<Rightarrow> u32 \<Rightarrow> MSLLHOOKSTRUCT
     \<Rightarrow> AppState \<Rightarrow> AppState" where
  "mouse_dispatch move_cb button_cb scroll_cb wParam ms s =
     (if wParam = WM_MOUSEMOVE then
        (let dx = i32 (pt_x ms - last_x (input_capture s));
             dy = i32 (pt_y ms - last_y (input_capture s));
             s1 = (if dx \<noteq> 0 \<or> dy \<noteq> 0 then move_cb (pt_x ms) (pt_y ms) dx dy s else s)
         in if \<not> captured (input_capture s1)
            then s1\<lparr>input_capture := (input_capture s1)\<lparr>last_x := pt_x ms, last_y := pt_y ms\<rparr>\<rparr>
            else s1)
      else if wParam = WM_LBUTTONDOWN then button_cb MouseButton_LEFT True s
      else if wParam = WM_LBUTTONUP then button_cb MouseButton_LEFT False s
      else if wParam = WM_RBUTTONDOWN then button_cb MouseButton_RIGHT True s
      else if wParam = WM_RBUTTONUP then button_cb MouseButton_RIGHT False s
      else if wParam = WM_MBUTTONDOWN then button_cb MouseButton_MIDDLE True s
      else if wParam = WM_MBUTTONUP then button_cb MouseButton_MIDDLE False s
      else if wParam = WM_XBUTTONDOWN then button_cb (xbutton (mouseData ms)) True s
      else if wParam = WM_XBUTTONUP then button_cb (xbutton (mouseData ms)) False s
      else if wParam = WM_MOUSEWHEEL then
        scroll_cb 0 (GET_WHEEL_DELTA_WPARAM (mouseData ms) sdiv WHEEL_DELTA) s
      else if wParam = WM_MOUSEHWHEEL then
        scroll_cb (GET_WHEEL_DELTA_WPARAM (mouseData ms) sdiv WHEEL_DELTA) 0 s
      else s)"

definition mouse_hook_proc ::
  "move_callback \<Rightarrow> button_callback \<Rightarrow> scroll_callback \<Rightarrow> u32 \<Rightarrow> int \<Rightarrow> u32
     \<Rightarrow> MSLLHOOKSTRUCT \<Rightarrow> AppState \<Rightarrow> LRESULT \<times> AppState" where
  "mouse_hook_proc move_cb button_cb scroll_cb now nCode wParam ms s =
     (if nCode \<ge> 0 then
        (let s1 = touch_activity now s;
             s2 = mouse_dispatch move_cb button_cb scroll_cb wParam ms s1
         in if captured (input_capture s2) then (Blocked, s2) else (CallNextHookEx, s2))
      else (CallNextHookEx, s))"

section \<open>Wire codec (common.hpp)\<close>

text \<open>Little-endian object representation of 16- and 32-bit fields.\<close>

definition le16 :: "u16 \<Rightarrow> byte list" where
  "le16 w = [ucast w, ucast (drop_bit 8 w)]"

definition le32 :: "u32 \<Rightarrow> byte list" where
  "le32 w = [ucast w, ucast (drop_bit 8 w), ucast (drop_bit 16 w), ucast (drop_bit 24 w)]"

text \<open>
  Reading a field through a struct pointer. The readers below are applied only to
  buffers that the callers have checked to be long enough; the second equation is
  never reached from them.
\<close>

fun rd16 :: "byte list \<Rightarrow> u16" where
  "rd16 (b0 # b1 # _) = ucast b0 OR push_bit 8 (ucast b1)"
| "rd16 _ = 0"

fun rd32 :: "byte list \<Rightarrow> u32" where
  "rd32 (b0 # b1 # b2 # b3 # _) =
     ucast b0 OR push_bit 8 (ucast b1) OR push_bit 16 (ucast b2) OR push_bit 24 (ucast b3)"
| "rd32 _ = 0"

text \<open>A \<open>bool\<close> member occupies one byte, 1 for true; a non-zero byte reads as true.\<close>

definition bool_byte :: "bool \<Rightarrow> byte" where
  "bool_byte b = (if b then 1 else 0)"

definition byte_bool :: "byte list \<Rightarrow> bool" where
  "byte_bool bs = (case bs of [] \<Rightarrow> False | b # _ \<Rightarrow> b \<noteq> 0)"

definition byte_at :: "byte list \<Rightarrow> byte" where
  "byte_at bs = (case bs of [] \<Rightarrow> 0 | b # _ \<Rightarrow> b)"

record PacketHeader =
  version :: u16
  type :: byte
  timestamp :: u32
  payload_size :: u16

record MouseMoveEvent =
  mm_x :: u32
  mm_y :: u32
  mm_dx :: u32
  mm_dy :: u32

record MouseButtonEvent =
  mb_button :: byte
  mb_pressed :: bool

record MouseScrollEvent =
  ms_dx :: u32
  ms_dy :: u32

record KeyEvent =
  ke_vkCode :: u32
  ke_scanCode :: u32
  ke_flags :: u32

record ScreenInfo =
  si_width :: u32
  si_height :: u32
  si_x :: u32
  si_y :: u32

record SwitchScreenEvent =
  sw_edge :: byte
  sw_position :: u32

definition PROTOCOL_VERSION :: u16 where "PROTOCOL_VERSION = 1"
definition MAX_PAYLOAD_SIZE :: u16 where "MAX_PAYLOAD_SIZE = 65535"

text \<open>\<open>memcpy\<close> out of the packed structs (\<open>#pragma pack(push, 1)\<close>).\<close>

definition bytes_PacketHeader :: "PacketHeader \<Rightarrow> byte list" where
  "bytes_PacketHeader h = le16 (version h) @ [type h] @ le32 (timestamp h) @ le16 (payload_size h)"

definition bytes_MouseMoveEvent :: "MouseMoveEvent \<Rightarrow> byte list" where
  "bytes_MouseMoveEvent e = le32 (mm_x e) @ le32 (mm_y e) @ le32 (mm_dx e) @ le32 (mm_dy e)"

definition bytes_MouseButtonEvent :: "MouseButtonEvent \<Rightarrow> byte list" where
  "bytes_MouseButtonEvent e = [mb_button e, bool_byte (mb_pressed e)]"

definition bytes_MouseScrollEvent :: "MouseScrollEvent \<Rightarrow> byte list" where
  "bytes_MouseScrollEvent e = le32 (ms_dx e) @ le32 (ms_dy e)"

definition bytes_KeyEvent :: "KeyEvent \<Rightarrow> byte list" where
  "bytes_KeyEvent e = le32 (ke_vkCode e) @ le32 (ke_scanCode e) @ le32 (ke_flags e)"

definition bytes_ScreenInfo :: "ScreenInfo \<Rightarrow> byte list" where
  "bytes_ScreenInfo e = le32 (si_width e) @ le32 (si_height e) @ le32 (si_x e) @ le32 (si_y e)"

definition bytes_SwitchScreenEvent :: "SwitchScreenEvent \<Rightarrow> byte list" where
  "bytes_SwitchScreenEvent e = [sw_edge e] @ le32 (sw_position e)"

text \<open>The same structs read back through a pointer cast into a received buffer.\<close>

definition read_PacketHeader :: "byte list \<Rightarrow> PacketHeader" where
  "read_PacketHeader bs =
     \<lparr>version = rd16 bs, type = byte_at (drop 2 bs), timestamp = rd32 (drop 3 bs),
      payload_size = rd16 (drop 7 bs)\<rparr>"

definition read_MouseMoveEvent :: "byte list \<Rightarrow> MouseMoveEvent" where
  "read_MouseMoveEvent bs =
     \<lparr>mm_x = rd32 bs, mm_y = rd32 (drop 4 bs), mm_dx = rd32 (drop 8 bs),
      mm_dy = rd32 (drop 12 bs)\<rparr>"

definition read_MouseButtonEvent :: "byte list \<Rightarrow> MouseButtonEvent" where
  "read_MouseButtonEvent bs = \<lparr>mb_button = byte_at bs, mb_pressed = byte_bool (drop 1 bs)\<rparr>"

definition read_MouseScrollEvent :: "byte list \<Rightarrow> MouseScrollEvent" where
  "read_MouseScrollEvent bs = \<lparr>ms_dx = rd32 bs, ms_dy = rd32 (drop 4 bs)\<rparr>"

definition read_KeyEvent :: "byte list \<Rightarrow> KeyEvent" where
  "read_KeyEvent bs =
     \<lparr>ke_vkCode = rd32 bs, ke_scanCode = rd32 (drop 4 bs), ke_flags = rd32 (drop 8 bs)\<rparr>"

definition read_ScreenInfo :: "byte list \<Rightarrow> ScreenInfo" where
  "read_ScreenInfo bs =
     \<lparr>si_width = rd32 bs, si_height = rd32 (drop 4 bs), si_x = rd32 (drop 8 bs),
      si_y = rd32 (drop 12 bs)\<rparr>"

definition read_SwitchScreenEvent :: "byte list \<Rightarrow> SwitchScreenEvent" where
  "read_SwitchScreenEvent bs = \<lparr>sw_edge = byte_at bs, sw_position = rd32 (drop 1 bs)\<rparr>"

text \<open>
  \<open>is_valid_packet_header\<close>. \<open>payload_size\<close> is a \<open>uint16_t\<close> compared with 65535.
\<close>

definition is_valid_packet_header :: "PacketHeader \<Rightarrow> bool" where
  "is_valid_packet_header header =
     (if version header \<noteq> PROTOCOL_VERSION then False
      else if payload_size header > MAX_PAYLOAD_SIZE then False
      else True)"

text \<open>
  \<open>serialize_packet<T>(type, payload)\<close>: \<open>payload\<close> is the object representation of
  the \<open>T\<close> passed, so \<open>sizeof(T)\<close> is its length; \<open>ts\<close> is \<open>get_timestamp()\<close>.
\<close>

definition serialize_packet :: "u32 \<Rightarrow> byte \<Rightarrow> byte list \<Rightarrow> byte list" where
  "serialize_packet ts ty payload =
     bytes_PacketHeader
       \<lparr>version = PROTOCOL_VERSION, type = ty, timestamp = ts,
        payload_size = of_nat (length payload)\<rparr> @ payload"

definition serialize_keepalive :: "u32 \<Rightarrow> byte list" where
  "serialize_keepalive ts =
     bytes_PacketHeader
       \<lparr>version = PROTOCOL_VERSION, type = EventType_KEEPALIVE, timestamp = ts,
        payload_size = 0\<rparr>"

text \<open>
  The events of the protocol, as the senders build them: each constructor is one
  pairing of an \<open>EventType\<close> with a payload struct (a key event's direction is in
  the type, \<open>KEY_PRESS\<close> or \<open>KEY_RELEASE\<close>).
\<close>

datatype event =
    MouseMove MouseMoveEvent
  | MouseButton MouseButtonEvent
  | MouseScroll MouseScrollEvent
  | Key KeyEvent bool
  | ScreenInfoEv ScreenInfo
  | SwitchScreen SwitchScreenEvent
  | Keepalive

fun encode :: "u32 \<Rightarrow> event \<Rightarrow> byte list" where
  "encode ts (MouseMove e) = serialize_packet ts EventType_MOUSE_MOVE (bytes_MouseMoveEvent e)"
| "encode ts (MouseButton e) =
     serialize_packet ts EventType_MOUSE_BUTTON (bytes_MouseButtonEvent e)"
| "encode ts (MouseScroll e) =
     serialize_packet ts EventType_MOUSE_SCROLL (bytes_MouseScrollEvent e)"
| "encode ts (Key e pressed) =
     serialize_packet ts (if pressed then EventType_KEY_PRESS else EventType_KEY_RELEASE)
       (bytes_KeyEvent e)"
| "encode ts (ScreenInfoEv e) = serialize_packet ts EventType_SCREEN_INFO (bytes_ScreenInfo e)"
| "encode ts (SwitchScreen e) =
     serialize_packet ts EventType_SWITCH_SCREEN (bytes_SwitchScreenEvent e)"
| "encode ts Keepalive = serialize_keepalive ts"

text \<open>
  \<open>Socket::recv_exact(buffer, len)\<close> on the bytes that arrive before the call gives
  up: it fills the buffer and leaves the rest, or returns false having consumed
  what there was.
\<close>

definition recv_exact :: "nat \<Rightarrow> byte list \<Rightarrow> (byte list \<times> byte list) option" where
  "recv_exact len stream =
     (if len \<le> length stream then Some (take len stream, drop len stream) else None)"

section \<open>Primary side: the server callbacks (gui_app.cpp, server_thread_func)\<close>

text \<open>
  The edge test at the top of the mouse-move callback: the first matching branch
  decides, so a corner counts as LEFT or RIGHT. The result is
  \<open>(at_edge, edge, edge_position)\<close>.
\<close>

definition detect_edge :: "ComputerInfo \<Rightarrow> int \<Rightarrow> int \<Rightarrow> bool \<times> byte \<times> int" where
  "detect_edge loc x y =
     (if x \<le> 0 then (True, ScreenEdge_LEFT, y)
      else if x \<ge> i32 (screen_width loc - 1) then (True, ScreenEdge_RIGHT, y)
      else if y \<le> 0 then (True, ScreenEdge_TOP, x)
      else if y \<ge> i32 (screen_height loc - 1) then (True, ScreenEdge_BOTTOM, x)
      else (False, ScreenEdge_NONE, 0))"

text \<open>
  The loop over \<open>g_app.layout.computers\<close> that sets \<open>found_neighbor\<close>; \<open>me\<close> is
  \<open>g_app.computer_name\<close>, \<open>loc\<close> is \<open>g_app.local_info\<close>.
\<close>

fun found_neighbor :: "string \<Rightarrow> ComputerInfo \<Rightarrow> byte \<Rightarrow> int \<Rightarrow> ComputerInfo list \<Rightarrow> bool" where
  "found_neighbor me loc edge edge_position [] = False"
| "found_neighbor me loc edge edge_position (cmp # rest) =
     (if name cmp = me then found_neighbor me loc edge edge_position rest
      else if \<not> is_connected cmp then found_neighbor me loc edge edge_position rest
      else
        (let local_x = layout_x loc; local_y = layout_y loc;
             local_w = screen_width loc; local_h = screen_height loc
         in if edge = ScreenEdge_RIGHT \<and>
               layout_x cmp = i32 (local_x + local_w) \<and>
               layout_y cmp \<le> i32 (local_y + edge_position) \<and>
               i32 (layout_y cmp + screen_height cmp) > i32 (local_y + edge_position) then True
            else if edge = ScreenEdge_LEFT \<and>
               i32 (layout_x cmp + screen_width cmp) = local_x \<and>
               layout_y cmp \<le> i32 (local_y + edge_position) \<and>
               i32 (layout_y cmp + screen_height cmp) > i32 (local_y + edge_position) then True
            else if edge = ScreenEdge_BOTTOM \<and>
               layout_y cmp = i32 (local_y + local_h) \<and>
               layout_x cmp \<le> i32 (local_x + edge_position) \<and>
               i32 (layout_x cmp + screen_width cmp) > i32 (local_x + edge_position) then True
            else if edge = ScreenEdge_TOP \<and>
               i32 (layout_y cmp + screen_height cmp) = local_y \<and>
               layout_x cmp \<le> i32 (local_x + edge_position) \<and>
               i32 (layout_x cmp + screen_width cmp) > i32 (local_x + edge_position) then True
            else found_neighbor me loc edge edge_position rest))"

text \<open>
  The edge put into the SwitchScreen event. The source assigns nothing for any other
  value of \<open>edge\<close>; the callback reaches this only with one of the four edges.
\<close>

definition entry_edge_for :: "byte \<Rightarrow> byte" where
  "entry_edge_for edge =
     (if edge = ScreenEdge_RIGHT then ScreenEdge_LEFT
      else if edge = ScreenEdge_LEFT then ScreenEdge_RIGHT
      else if edge = ScreenEdge_TOP then ScreenEdge_BOTTOM
      else if edge = ScreenEdge_BOTTOM then ScreenEdge_TOP
      else ScreenEdge_NONE)"

text \<open>The two statements every send-failure branch runs, in the source's order.\<close>

definition release_to_local :: "env \<Rightarrow> AppState \<Rightarrow> AppState" where
  "release_to_local e s =
     (let s1 = s\<lparr>active_on_remote := False\<rparr>
      in s1\<lparr>input_capture := capture_input (tick e) False (input_capture s1)\<rparr>)"

definition push_wire :: "byte list \<Rightarrow> AppState \<Rightarrow> AppState" where
  "push_wire data s = s\<lparr>wire := wire s @ [data]\<rparr>"

definition app_warp_cursor :: "int \<Rightarrow> int \<Rightarrow> AppState \<Rightarrow> AppState" where
  "app_warp_cursor x y s =
     s\<lparr>input_capture := warp_cursor x y (input_capture s), os_cursor := (x, y)\<rparr>"

definition on_mouse_move :: "env \<Rightarrow> move_callback" where
  "on_mouse_move e x y dx dy s =
     (if \<not> active_client s then s
      else
        (case detect_edge (local_info s) x y of (at_edge0, edge, edge_position) \<Rightarrow>
           (let at_edge =
                  (at_edge0 \<and>
                   found_neighbor (computer_name s) (local_info s) edge edge_position
                     (computers s))
            in if at_edge \<and> \<not> active_on_remote s then
                 (let s1 = s\<lparr>active_on_remote := True\<rparr>;
                      s2 = s1\<lparr>input_capture := capture_input (tick e) True (input_capture s1)\<rparr>;
                      data = serialize_packet (steady_ms e) EventType_SWITCH_SCREEN
                               (bytes_SwitchScreenEvent
                                  \<lparr>sw_edge = entry_edge_for edge,
                                   sw_position = word_of_int edge_position\<rparr>);
                      centre = app_warp_cursor (screen_width (local_info s) sdiv 2)
                                 (screen_height (local_info s) sdiv 2)
                  in if active_client s2 then
                       (if sent e \<le> 0 then release_to_local e s2
                        else centre (push_wire data s2))
                     else centre s2)
               else if active_on_remote s then
                 (let data = serialize_packet (steady_ms e) EventType_MOUSE_MOVE
                               (bytes_MouseMoveEvent
                                  \<lparr>mm_x = word_of_int x, mm_y = word_of_int y,
                                   mm_dx = word_of_int dx, mm_dy = word_of_int dy\<rparr>)
                  in if active_client s then
                       (if sent e \<le> 0 then release_to_local e s else push_wire data s)
                     else s)
               else s)))"

definition on_mouse_button :: "env \<Rightarrow> button_callback" where
  "on_mouse_button e button pressed s =
     (if \<not> active_on_remote s then s
      else if \<not> active_client s then s
      else
        (let data = serialize_packet (steady_ms e) EventType_MOUSE_BUTTON
                      (bytes_MouseButtonEvent \<lparr>mb_button = button, mb_pressed = pressed\<rparr>)
         in if sent e \<le> 0 then release_to_local e s else push_wire data s))"

definition on_mouse_scroll :: "env \<Rightarrow> scroll_callback" where
  "on_mouse_scroll e dx dy s =
     (if \<not> active_on_remote s then s
      else if \<not> active_client s then s
      else
        (let data = serialize_packet (steady_ms e) EventType_MOUSE_SCROLL
                      (bytes_MouseScrollEvent \<lparr>ms_dx = word_of_int dx, ms_dy = word_of_int dy\<rparr>)
         in if sent e \<le> 0 then release_to_local e s else push_wire data s))"

definition on_key :: "env \<Rightarrow> key_callback" where
  "on_key e vk scan flgs pressed s =
     (if vk = VK_F8 \<and> pressed then
        (if active_client s then
           (let new_state = (\<not> active_on_remote s);
                s1 = s\<lparr>active_on_remote := new_state\<rparr>;
                s2 = s1\<lparr>input_capture := capture_input (tick e) new_state (input_capture s1)\<rparr>
            in if new_state then
                 (let data = serialize_packet (steady_ms e) EventType_SWITCH_SCREEN
                               (bytes_SwitchScreenEvent
                                  \<lparr>sw_edge = ScreenEdge_LEFT,
                                   sw_position = word_of_int (sm_cyscreen e sdiv 2)\<rparr>)
                  in if active_client s2 then
                       (if sent e \<le> 0 then s2 else push_wire data s2)
                     else s2)
               else s2)
         else s)
      else if vk = VK_SCROLL \<and> pressed then
        (if active_on_remote s then release_to_local e s else s)
      else if \<not> active_on_remote s then s
      else
        (let data = serialize_packet (steady_ms e)
                      (if pressed then EventType_KEY_PRESS else EventType_KEY_RELEASE)
                      (bytes_KeyEvent \<lparr>ke_vkCode = vk, ke_scanCode = scan, ke_flags = flgs\<rparr>)
         in if active_client s then
              (if sent e \<le> 0 then release_to_local e s else push_wire data s)
            else s))"

text \<open>
  The accept loop of \<open>server_thread_func\<close>. On a new connection the first computer
  with the client's address is marked connected, the socket is stored and a
  ScreenInfo frame is sent (its result is not examined; \<open>info.x\<close> and \<open>info.y\<close> are
  never assigned, \<open>junk\<close> stands for what they hold). When the connection ends the
  mark is cleared, the socket closed, focus and capture reset.
\<close>

fun mark_connected :: "string \<Rightarrow> bool \<Rightarrow> ComputerInfo list \<Rightarrow> ComputerInfo list" where
  "mark_connected client_ip b [] = []"
| "mark_connected client_ip b (cmp # rest) =
     (if ip cmp = client_ip then cmp\<lparr>is_connected := b\<rparr> # rest
      else cmp # mark_connected client_ip b rest)"

definition client_accepted :: "env \<Rightarrow> string \<Rightarrow> u32 \<times> u32 \<Rightarrow> AppState \<Rightarrow> AppState" where
  "client_accepted e client_ip junk s =
     (let s1 = s\<lparr>computers := mark_connected client_ip True (computers s)\<rparr>;
          s2 = s1\<lparr>active_client := True\<rparr>;
          data = serialize_packet (steady_ms e) EventType_SCREEN_INFO
                   (bytes_ScreenInfo
                      \<lparr>si_width = word_of_int (screen_width (local_info s)),
                       si_height = word_of_int (screen_height (local_info s)),
                       si_x = fst junk, si_y = snd junk\<rparr>)
      in if sent e \<le> 0 then s2 else push_wire data s2)"

definition client_disconnected :: "env \<Rightarrow> string \<Rightarrow> AppState \<Rightarrow> AppState" where
  "client_disconnected e client_ip s =
     (let s1 = s\<lparr>computers := mark_connected client_ip False (computers s)\<rparr>;
          s2 = s1\<lparr>active_client := False\<rparr>
      in release_to_local e s2)"

section \<open>Discovery (gui_app.cpp, discovery_thread_func)\<close>

text \<open>
  A received datagram seen through \<open>DiscoveryPacket*\<close>: \<open>dp_name\<close> is the C string in
  \<open>name[64]\<close>, the int32 fields are given as the \<open>int\<close> they are assigned to.
\<close>

record DiscoveryPacket =
  dp_magic :: string
  dp_type :: byte
  dp_port :: u16
  dp_screen_width :: int
  dp_screen_height :: int
  dp_is_server :: byte
  dp_name :: string

definition sizeof_DiscoveryPacket :: int where
  "sizeof_DiscoveryPacket = 80"

text \<open>
  The update loop: the first computer of that name is refreshed (address, port,
  screen size, role and time; not its position or its connected mark), then
  \<open>break\<close>. \<open>None\<close> stands for \<open>found == false\<close>.
\<close>

definition refreshed :: "DiscoveryPacket \<Rightarrow> string \<Rightarrow> u32 \<Rightarrow> ComputerInfo \<Rightarrow> ComputerInfo" where
  "refreshed packet ip_str now cmp =
     cmp\<lparr>ip := ip_str, port := dp_port packet, screen_width := dp_screen_width packet,
         screen_height := dp_screen_height packet, is_server := (dp_is_server packet = 1),
         last_seen := now\<rparr>"

fun update_known :: "DiscoveryPacket \<Rightarrow> string \<Rightarrow> u32 \<Rightarrow> ComputerInfo list \<Rightarrow> ComputerInfo list option" where
  "update_known packet ip_str now [] = None"
| "update_known packet ip_str now (cmp # rest) =
     (if name cmp = dp_name packet then Some (refreshed packet ip_str now cmp # rest)
      else map_option ((#) cmp) (update_known packet ip_str now rest))"

text \<open>\<open>max_x\<close> after the loop \<open>max_x = max(max_x, c.layout_x + c.screen_width)\<close> from 0.\<close>

definition max_right :: "ComputerInfo list \<Rightarrow> int" where
  "max_right cs = foldl (\<lambda>max_x c. max max_x (i32 (layout_x c + screen_width c))) 0 cs"

definition new_computer :: "DiscoveryPacket \<Rightarrow> string \<Rightarrow> u32 \<Rightarrow> ComputerInfo list \<Rightarrow> ComputerInfo" where
  "new_computer packet ip_str now cs =
     \<lparr>name = dp_name packet, ip = ip_str, port = dp_port packet,
      screen_width = dp_screen_width packet, screen_height = dp_screen_height packet,
      is_server = (dp_is_server packet = 1), is_connected = False, last_seen = now,
      layout_x = i32 (max_right cs + 50), layout_y = 0\<rparr>"

text \<open>
  One datagram of the inner receive loop: \<open>received\<close> is what \<open>recvfrom\<close> returned,
  \<open>ip_str\<close> the sender's address, \<open>now\<close> is \<open>GetTickCount()\<close>.
\<close>

definition on_datagram :: "int \<Rightarrow> DiscoveryPacket \<Rightarrow> string \<Rightarrow> u32 \<Rightarrow> AppState \<Rightarrow> AppState" where
  "on_datagram received packet ip_str now s =
     (if received \<le> 0 then s
      else if received \<ge> sizeof_DiscoveryPacket then
        (if dp_magic packet = ''MSHR'' then
           (if dp_name packet = computer_name s then s
            else
              (case update_known packet ip_str now (computers s) of
                 Some cs \<Rightarrow> s\<lparr>computers := cs\<rparr>
               | None \<Rightarrow>
                   s\<lparr>computers :=
                        computers s @ [new_computer packet ip_str now (computers s)]\<rparr>))
         else s)
      else s)"

definition is_stale :: "string \<Rightarrow> u32 \<Rightarrow> ComputerInfo \<Rightarrow> bool" where
  "is_stale me now c = (name c \<noteq> [] \<and> name c \<noteq> me \<and> now - last_seen c > 10000)"

definition remove_stale :: "u32 \<Rightarrow> AppState \<Rightarrow> AppState" where
  "remove_stale now s =
     s\<lparr>computers := filter (\<lambda>c. \<not> is_stale (computer_name s) now c) (computers s)\<rparr>"

text \<open>\<open>AppState::init\<close> and the member initialisers: the local computer alone, at (0, 0).\<close>

definition init_local_info :: "string \<Rightarrow> int \<Rightarrow> int \<Rightarrow> u32 \<Rightarrow> ComputerInfo" where
  "init_local_info nm w h junk =
     \<lparr>name = nm, ip = [], port = 24800, screen_width = w, screen_height = h,
      is_server = False, is_connected = False, last_seen = junk,
      layout_x = 0, layout_y = 0\<rparr>"

definition init :: "string \<Rightarrow> int \<Rightarrow> int \<Rightarrow> u32 \<Rightarrow> AppState" where
  "init nm w h junk =
     \<lparr>computer_name = nm,
      local_info = init_local_info nm w h junk,
      computers = [init_local_info nm w h junk],
      active_client = False,
      active_on_remote = False,
      input_capture =
        \<lparr>ic_screen_width = 0, ic_screen_height = 0, last_x = 0, last_y = 0,
         running = False, captured = False, last_activity = 0,
         hook_thread_joinable = False, hook_queue = []\<rparr>,
      wire = [],
      os_cursor = (0, 0)\<rparr>"

section \<open>The primary as a transition system\<close>

text \<open>
  Everything that changes focus, capture, session or topology on the primary, one
  constructor per entry point: \<open>InputCapture::start\<close>, the two hooks (which run the
  server callbacks), a turn of the hook thread's message loop, the accept loop, the
  discovery thread, the layout editor (a computer other than the local one dragged
  to a new position; the position comes out of float arithmetic in the source and
  is left free here) and \<open>InputCapture::stop\<close>. Time passes between events: each
  carries the tick count at which it happens.
\<close>

datatype primary_event =
    StartCapture
  | KeyboardHook env int u32 KBDLLHOOKSTRUCT bool bool
  | MouseHook env int u32 MSLLHOOKSTRUCT
  | HookThreadTurn u32
  | ClientAccepted env string "u32 \<times> u32"
  | ClientDisconnected env string
  | Datagram int DiscoveryPacket string u32
  | RemoveStale u32
  | DragTo nat int int
  | StopCapture

definition drag_to :: "nat \<Rightarrow> int \<Rightarrow> int \<Rightarrow> AppState \<Rightarrow> AppState" where
  "drag_to i x y s =
     (if i < length (computers s) \<and> name (computers s ! i) \<noteq> computer_name s
      then s\<lparr>computers := (computers s)[i := (computers s ! i)\<lparr>layout_x := x, layout_y := y\<rparr>]\<rparr>
      else s)"

fun primary_step :: "primary_event \<Rightarrow> AppState \<Rightarrow> AppState" where
  "primary_step StartCapture s = s\<lparr>input_capture := start (input_capture s)\<rparr>"
| "primary_step (KeyboardHook e nCode wParam kb ctrl_down alt_down) s =
     snd (keyboard_hook_proc (on_key e) (tick e) nCode wParam kb ctrl_down alt_down s)"
| "primary_step (MouseHook e nCode wParam ms) s =
     snd (mouse_hook_proc (on_mouse_move e) (on_mouse_button e) (on_mouse_scroll e)
            (tick e) nCode wParam ms s)"
| "primary_step (HookThreadTurn now) s =
     s\<lparr>input_capture := hook_thread_turn now (input_capture s)\<rparr>"
| "primary_step (ClientAccepted e client_ip junk) s = client_accepted e client_ip junk s"
| "primary_step (ClientDisconnected e client_ip) s = client_disconnected e client_ip s"
| "primary_step (Datagram received packet ip_str now) s = on_datagram received packet ip_str now s"
| "primary_step (RemoveStale now) s = remove_stale now s"
| "primary_step (DragTo i x y) s = drag_to i x y s"
| "primary_step StopCapture s = s\<lparr>input_capture := stop (input_capture s)\<rparr>"

fun run :: "primary_event list \<Rightarrow> AppState \<Rightarrow> AppState" where
  "run [] s = s"
| "run (ev # evs) s = run evs (primary_step ev s)"

section \<open>Input injector (input_simulator.hpp)\<close>

text \<open>
  One \<open>SendInput\<close> call: the \<open>INPUT\<close> it passes. \<open>MouseInput dx dy mouseData dwFlags\<close>
  and \<open>KeyboardInput wVk wScan dwFlags\<close>; the flag values are those of \<open>winuser.h\<close>.
\<close>

datatype INPUT = MouseInput int int u32 u32 | KeyboardInput u16 u16 u32

definition MOUSEEVENTF_MOVE :: u32 where "MOUSEEVENTF_MOVE = 0x0001"
definition MOUSEEVENTF_LEFTDOWN :: u32 where "MOUSEEVENTF_LEFTDOWN = 0x0002"
definition MOUSEEVENTF_LEFTUP :: u32 where "MOUSEEVENTF_LEFTUP = 0x0004"
definition MOUSEEVENTF_RIGHTDOWN :: u32 where "MOUSEEVENTF_RIGHTDOWN = 0x0008"
definition MOUSEEVENTF_RIGHTUP :: u32 where "MOUSEEVENTF_RIGHTUP = 0x0010"
definition MOUSEEVENTF_MIDDLEDOWN :: u32 where "MOUSEEVENTF_MIDDLEDOWN = 0x0020"
definition MOUSEEVENTF_MIDDLEUP :: u32 where "MOUSEEVENTF_MIDDLEUP = 0x0040"
definition MOUSEEVENTF_XDOWN :: u32 where "MOUSEEVENTF_XDOWN = 0x0080"
definition MOUSEEVENTF_XUP :: u32 where "MOUSEEVENTF_XUP = 0x0100"
definition MOUSEEVENTF_WHEEL :: u32 where "MOUSEEVENTF_WHEEL = 0x0800"
definition MOUSEEVENTF_HWHEEL :: u32 where "MOUSEEVENTF_HWHEEL = 0x1000"
definition MOUSEEVENTF_ABSOLUTE :: u32 where "MOUSEEVENTF_ABSOLUTE = 0x8000"
definition KEYEVENTF_EXTENDEDKEY :: u32 where "KEYEVENTF_EXTENDEDKEY = 0x0001"
definition KEYEVENTF_KEYUP :: u32 where "KEYEVENTF_KEYUP = 0x0002"
definition LLKHF_EXTENDED :: u32 where "LLKHF_EXTENDED = 0x01"

record InputSimulator =
  sim_screen_width :: int
  sim_screen_height :: int
  current_x :: int
  current_y :: int
  injected :: "INPUT list"

definition SendInput :: "INPUT \<Rightarrow> InputSimulator \<Rightarrow> InputSimulator" where
  "SendInput inp sim = sim\<lparr>injected := injected sim @ [inp]\<rparr>"

text \<open>
  \<open>move_mouse\<close>. The division by \<open>screen_width_ - 1\<close> traps in C++ on a screen one
  pixel wide; here it yields 0.
\<close>

definition move_mouse :: "int \<Rightarrow> int \<Rightarrow> InputSimulator \<Rightarrow> InputSimulator" where
  "move_mouse x0 y0 sim =
     (let x = max 0 (min x0 (i32 (sim_screen_width sim - 1)));
          y = max 0 (min y0 (i32 (sim_screen_height sim - 1)));
          norm_x = i32 (x * 65535) sdiv i32 (sim_screen_width sim - 1);
          norm_y = i32 (y * 65535) sdiv i32 (sim_screen_height sim - 1);
          sim1 = SendInput (MouseInput norm_x norm_y 0 (MOUSEEVENTF_ABSOLUTE OR MOUSEEVENTF_MOVE)) sim
      in sim1\<lparr>current_x := x, current_y := y\<rparr>)"

definition mouse_button :: "byte \<Rightarrow> bool \<Rightarrow> InputSimulator \<Rightarrow> InputSimulator" where
  "mouse_button button pressed sim =
     SendInput
       (if button = MouseButton_LEFT then
          MouseInput 0 0 0 (if pressed then MOUSEEVENTF_LEFTDOWN else MOUSEEVENTF_LEFTUP)
        else if button = MouseButton_RIGHT then
          MouseInput 0 0 0 (if pressed then MOUSEEVENTF_RIGHTDOWN else MOUSEEVENTF_RIGHTUP)
        else if button = MouseButton_MIDDLE then
          MouseInput 0 0 0 (if pressed then MOUSEEVENTF_MIDDLEDOWN else MOUSEEVENTF_MIDDLEUP)
        else if button = MouseButton_BUTTON4 then
          MouseInput 0 0 (ucast XBUTTON1) (if pressed then MOUSEEVENTF_XDOWN else MOUSEEVENTF_XUP)
        else if button = MouseButton_BUTTON5 then
          MouseInput 0 0 (ucast XBUTTON2) (if pressed then MOUSEEVENTF_XDOWN else MOUSEEVENTF_XUP)
        else MouseInput 0 0 0 0)
       sim"

text \<open>\<open>mouse_scroll\<close>: \<open>mouseData\<close> is a DWORD assigned the \<open>int\<close> product.\<close>

definition mouse_scroll :: "int \<Rightarrow> int \<Rightarrow> InputSimulator \<Rightarrow> InputSimulator" where
  "mouse_scroll dx dy sim =
     (let sim1 = (if dy \<noteq> 0
                  then SendInput (MouseInput 0 0 (word_of_int (i32 (dy * WHEEL_DELTA))) MOUSEEVENTF_WHEEL) sim
                  else sim)
      in if dx \<noteq> 0
         then SendInput (MouseInput 0 0 (word_of_int (i32 (dx * WHEEL_DELTA))) MOUSEEVENTF_HWHEEL) sim1
         else sim1)"

definition key_event :: "u32 \<Rightarrow> u32 \<Rightarrow> u32 \<Rightarrow> bool \<Rightarrow> InputSimulator \<Rightarrow> InputSimulator" where
  "key_event vk scan flgs pressed sim =
     (let f0 = (0 :: u32);
          f1 = (if flgs AND LLKHF_EXTENDED \<noteq> 0 then f0 OR KEYEVENTF_EXTENDEDKEY else f0);
          f2 = (if \<not> pressed then f1 OR KEYEVENTF_KEYUP else f1)
      in SendInput (KeyboardInput (ucast vk) (ucast scan) f2) sim)"

text \<open>The clamp \<open>max(0, min(v, limit - 1))\<close> both clients apply to the cursor.\<close>

definition clamp_to :: "int \<Rightarrow> int \<Rightarrow> int" where
  "clamp_to v limit = max 0 (min v (i32 (limit - 1)))"

section \<open>Secondary side, console client (client.cpp, class Client)\<close>

text \<open>
  The console client is the program whose text follows the README in
  \<open>src/README.md\<close> (\<open>class Client\<close>, \<open>process_events\<close>, \<open>scale_position\<close>). It and the
  GUI client further down are the two secondaries of the repository; both read the
  frames of common.hpp.
\<close>

definition sizeof_MouseMoveEvent :: nat where "sizeof_MouseMoveEvent = 16"
definition sizeof_MouseButtonEvent :: nat where "sizeof_MouseButtonEvent = 2"
definition sizeof_MouseScrollEvent :: nat where "sizeof_MouseScrollEvent = 8"
definition sizeof_KeyEvent :: nat where "sizeof_KeyEvent = 12"
definition sizeof_ScreenInfo :: nat where "sizeof_ScreenInfo = 16"
definition sizeof_SwitchScreenEvent :: nat where "sizeof_SwitchScreenEvent = 5"
definition sizeof_PacketHeader :: nat where "sizeof_PacketHeader = 9"

record Client =
  connected :: bool
  active :: bool
  cursor_x :: int
  cursor_y :: int
  server_width :: int
  server_height :: int
  entry_edge :: byte
  simulator :: InputSimulator
  last_data_received :: int

text \<open>The member initialisers of \<open>Client\<close>, after \<open>simulator_.init()\<close>.\<close>

definition new_Client :: "InputSimulator \<Rightarrow> Client" where
  "new_Client sim =
     \<lparr>connected = False, active = False, cursor_x = 0, cursor_y = 0,
      server_width = 1920, server_height = 1080, entry_edge = ScreenEdge_NONE,
      simulator = sim, last_data_received = 0\<rparr>"

definition scale_position :: "int \<Rightarrow> int \<Rightarrow> int \<Rightarrow> int" where
  "scale_position pos from_size to_size =
     (if from_size \<le> 0 \<or> to_size \<le> 0 then 0 else i32 (pos * to_size) sdiv from_size)"

definition check_edge_switch :: "Client \<Rightarrow> Client" where
  "check_edge_switch c =
     (let at_entry_edge =
            (if entry_edge c = ScreenEdge_LEFT then cursor_x c \<le> 0
             else if entry_edge c = ScreenEdge_RIGHT
               then cursor_x c \<ge> i32 (sim_screen_width (simulator c) - 1)
             else if entry_edge c = ScreenEdge_TOP then cursor_y c \<le> 0
             else if entry_edge c = ScreenEdge_BOTTOM
               then cursor_y c \<ge> i32 (sim_screen_height (simulator c) - 1)
             else False)
      in if at_entry_edge then c\<lparr>active := False\<rparr> else c)"

definition handle_mouse_move :: "MouseMoveEvent \<Rightarrow> Client \<Rightarrow> Client" where
  "handle_mouse_move ev c =
     (if \<not> active c then c
      else
        (let x = clamp_to (i32 (cursor_x c + sint (mm_dx ev))) (sim_screen_width (simulator c));
             y = clamp_to (i32 (cursor_y c + sint (mm_dy ev))) (sim_screen_height (simulator c));
             c1 = c\<lparr>cursor_x := x, cursor_y := y\<rparr>
         in check_edge_switch (c1\<lparr>simulator := move_mouse x y (simulator c1)\<rparr>)))"

definition handle_mouse_button :: "MouseButtonEvent \<Rightarrow> Client \<Rightarrow> Client" where
  "handle_mouse_button ev c =
     (if \<not> active c then c
      else c\<lparr>simulator := mouse_button (mb_button ev) (mb_pressed ev) (simulator c)\<rparr>)"

definition handle_mouse_scroll :: "MouseScrollEvent \<Rightarrow> Client \<Rightarrow> Client" where
  "handle_mouse_scroll ev c =
     (if \<not> active c then c
      else c\<lparr>simulator := mouse_scroll (sint (ms_dx ev)) (sint (ms_dy ev)) (simulator c)\<rparr>)"

definition handle_key_event :: "KeyEvent \<Rightarrow> bool \<Rightarrow> Client \<Rightarrow> Client" where
  "handle_key_event ev pressed c =
     (if \<not> active c then c
      else c\<lparr>simulator :=
               key_event (ke_vkCode ev) (ke_scanCode ev) (ke_flags ev) pressed (simulator c)\<rparr>)"

definition handle_screen_info :: "ScreenInfo \<Rightarrow> Client \<Rightarrow> Client" where
  "handle_screen_info info c =
     c\<lparr>server_width := sint (si_width info), server_height := sint (si_height info)\<rparr>"

definition handle_switch_screen :: "SwitchScreenEvent \<Rightarrow> Client \<Rightarrow> Client" where
  "handle_switch_screen ev c =
     (let c1 = c\<lparr>active := True, entry_edge := sw_edge ev\<rparr>;
          w = sim_screen_width (simulator c);
          h = sim_screen_height (simulator c);
          pos = sint (sw_position ev);
          c2 = (if sw_edge ev = ScreenEdge_LEFT then
                  c1\<lparr>cursor_x := 0, cursor_y := scale_position pos (server_height c) h\<rparr>
                else if sw_edge ev = ScreenEdge_RIGHT then
                  c1\<lparr>cursor_x := i32 (w - 1), cursor_y := scale_position pos (server_height c) h\<rparr>
                else if sw_edge ev = ScreenEdge_TOP then
                  c1\<lparr>cursor_x := scale_position pos (server_width c) w, cursor_y := 0\<rparr>
                else if sw_edge ev = ScreenEdge_BOTTOM then
                  c1\<lparr>cursor_x := scale_position pos (server_width c) w, cursor_y := i32 (h - 1)\<rparr>
                else c1\<lparr>cursor_x := w sdiv 2, cursor_y := h sdiv 2\<rparr>)
      in c2\<lparr>simulator := move_mouse (cursor_x c2) (cursor_y c2) (simulator c2)\<rparr>)"

text \<open>
  The \<open>switch (header.type)\<close> of \<open>process_events\<close> up to the handler call: which
  event, read through which struct, it hands on; \<open>None\<close> where it calls nothing (a
  payload smaller than the struct, or a type it does not know).
\<close>

definition dispatch :: "byte \<Rightarrow> byte list \<Rightarrow> event option" where
  "dispatch ty payload =
     (if ty = EventType_MOUSE_MOVE then
        (if length payload \<ge> sizeof_MouseMoveEvent
         then Some (MouseMove (read_MouseMoveEvent payload)) else None)
      else if ty = EventType_MOUSE_BUTTON then
        (if length payload \<ge> sizeof_MouseButtonEvent
         then Some (MouseButton (read_MouseButtonEvent payload)) else None)
      else if ty = EventType_MOUSE_SCROLL then
        (if length payload \<ge> sizeof_MouseScrollEvent
         then Some (MouseScroll (read_MouseScrollEvent payload)) else None)
      else if ty = EventType_KEY_PRESS \<or> ty = EventType_KEY_RELEASE then
        (if length payload \<ge> sizeof_KeyEvent
         then Some (Key (read_KeyEvent payload) (ty = EventType_KEY_PRESS)) else None)
      else if ty = EventType_SCREEN_INFO then
        (if length payload \<ge> sizeof_ScreenInfo
         then Some (ScreenInfoEv (read_ScreenInfo payload)) else None)
      else if ty = EventType_SWITCH_SCREEN then
        (if length payload \<ge> sizeof_SwitchScreenEvent
         then Some (SwitchScreen (read_SwitchScreenEvent payload)) else None)
      else if ty = EventType_KEEPALIVE then Some Keepalive
      else None)"

fun handle :: "event \<Rightarrow> Client \<Rightarrow> Client" where
  "handle (MouseMove ev) c = handle_mouse_move ev c"
| "handle (MouseButton ev) c = handle_mouse_button ev c"
| "handle (MouseScroll ev) c = handle_mouse_scroll ev c"
| "handle (Key ev pressed) c = handle_key_event ev pressed c"
| "handle (ScreenInfoEv info) c = handle_screen_info info c"
| "handle (SwitchScreen ev) c = handle_switch_screen ev c"
| "handle Keepalive c = c"

text \<open>
  The receiving half of \<open>process_events\<close>: header, validation, payload, switch.
  \<open>stream\<close> holds the bytes that arrive while the call waits; the result carries
  the bytes left unread.
\<close>

datatype decoded = NoHeader | InvalidHeader | Truncated | Ignored | Event event

definition recv_payload :: "u16 \<Rightarrow> byte list \<Rightarrow> (byte list \<times> byte list) option" where
  "recv_payload n stream = (if n > 0 then recv_exact (unat n) stream else Some ([], stream))"

definition decode :: "byte list \<Rightarrow> decoded \<times> byte list" where
  "decode stream =
     (case recv_exact sizeof_PacketHeader stream of
        None \<Rightarrow> (NoHeader, [])
      | Some (hbytes, rest) \<Rightarrow>
          (let header = read_PacketHeader hbytes
           in if \<not> is_valid_packet_header header then (InvalidHeader, rest)
              else
                (case recv_payload (payload_size header) rest of
                   None \<Rightarrow> (Truncated, [])
                 | Some (payload, rest1) \<Rightarrow>
                     (case dispatch (type header) payload of
                        None \<Rightarrow> (Ignored, rest1)
                      | Some ev \<Rightarrow> (Event ev, rest1)))))"

text \<open>
  \<open>Client::process_events\<close>. \<open>fatal\<close> says that the error after a failed header read
  is neither \<open>WSAEWOULDBLOCK\<close> nor \<open>WSAETIMEDOUT\<close>; \<open>now\<close> is the clock reading.
\<close>

definition process_events :: "bool \<Rightarrow> int \<Rightarrow> byte list \<Rightarrow> Client \<Rightarrow> Client \<times> byte list" where
  "process_events fatal now stream c =
     (case decode stream of
        (NoHeader, rest) \<Rightarrow> ((if fatal then c\<lparr>connected := False\<rparr> else c), rest)
      | (InvalidHeader, rest) \<Rightarrow> (c\<lparr>last_data_received := now, connected := False\<rparr>, rest)
      | (Truncated, rest) \<Rightarrow> (c\<lparr>last_data_received := now, connected := False\<rparr>, rest)
      | (Ignored, rest) \<Rightarrow> (c\<lparr>last_data_received := now\<rparr>, rest)
      | (Event ev, rest) \<Rightarrow> (handle ev (c\<lparr>last_data_received := now\<rparr>), rest))"

section \<open>Secondary side, GUI client (gui_app.cpp, client_thread_func)\<close>

text \<open>
  The locals of \<open>client_thread_func\<close> and the globals it uses: \<open>gc_screen_width\<close>,
  \<open>gc_screen_height\<close> are \<open>g_app.local_info.screen_width\<close>, \<open>screen_height\<close>;
  \<open>client_connected\<close> is the loop condition, cleared when the loop is left.
\<close>

record GuiClient =
  client_connected :: bool
  gc_active :: bool
  gc_cursor_x :: int
  gc_cursor_y :: int
  gc_entry_edge :: byte
  gc_screen_width :: int
  gc_screen_height :: int
  input_simulator :: InputSimulator

text \<open>The cases of its \<open>switch (header.type)\<close>; every other type takes \<open>default\<close>.\<close>

definition gui_dispatch :: "byte \<Rightarrow> byte list \<Rightarrow> event option" where
  "gui_dispatch ty payload =
     (if ty = EventType_MOUSE_MOVE then
        (if length payload < sizeof_MouseMoveEvent then None
         else Some (MouseMove (read_MouseMoveEvent payload)))
      else if ty = EventType_MOUSE_BUTTON then
        (if length payload < sizeof_MouseButtonEvent then None
         else Some (MouseButton (read_MouseButtonEvent payload)))
      else if ty = EventType_MOUSE_SCROLL then
        (if length payload < sizeof_MouseScrollEvent then None
         else Some (MouseScroll (read_MouseScrollEvent payload)))
      else if ty = EventType_KEY_PRESS \<or> ty = EventType_KEY_RELEASE then
        (if length payload < sizeof_KeyEvent then None
         else Some (Key (read_KeyEvent payload) (ty = EventType_KEY_PRESS)))
      else if ty = EventType_SWITCH_SCREEN then
        (if length payload < sizeof_SwitchScreenEvent then None
         else Some (SwitchScreen (read_SwitchScreenEvent payload)))
      else None)"

definition gui_decode :: "byte list \<Rightarrow> decoded \<times> byte list" where
  "gui_decode stream =
     (case recv_exact sizeof_PacketHeader stream of
        None \<Rightarrow> (NoHeader, [])
      | Some (hbytes, rest) \<Rightarrow>
          (let header = read_PacketHeader hbytes
           in if payload_size header > 65535 then (InvalidHeader, rest)
              else
                (case recv_payload (payload_size header) rest of
                   None \<Rightarrow> (Truncated, [])
                 | Some (payload, rest1) \<Rightarrow>
                     (case gui_dispatch (type header) payload of
                        None \<Rightarrow> (Ignored, rest1)
                      | Some ev \<Rightarrow> (Event ev, rest1)))))"

definition gui_move :: "int \<Rightarrow> int \<Rightarrow> GuiClient \<Rightarrow> GuiClient" where
  "gui_move x y c =
     c\<lparr>gc_cursor_x := x, gc_cursor_y := y,
       input_simulator := move_mouse x y (input_simulator c)\<rparr>"

fun gui_handle :: "event \<Rightarrow> GuiClient \<Rightarrow> GuiClient" where
  "gui_handle (MouseMove ev) c =
     (if \<not> gc_active c then c
      else
        (let x = clamp_to (i32 (gc_cursor_x c + sint (mm_dx ev))) (gc_screen_width c);
             y = clamp_to (i32 (gc_cursor_y c + sint (mm_dy ev))) (gc_screen_height c);
             c1 = gui_move x y c;
             should_return =
               (if gc_entry_edge c = ScreenEdge_LEFT then x \<le> 0
                else if gc_entry_edge c = ScreenEdge_RIGHT then x \<ge> i32 (gc_screen_width c - 1)
                else if gc_entry_edge c = ScreenEdge_TOP then y \<le> 0
                else if gc_entry_edge c = ScreenEdge_BOTTOM then y \<ge> i32 (gc_screen_height c - 1)
                else False)
         in if should_return
            then gui_move (gc_screen_width c sdiv 2) (gc_screen_height c sdiv 2)
                   (c1\<lparr>gc_active := False\<rparr>)
            else c1))"
| "gui_handle (MouseButton ev) c =
     (if \<not> gc_active c then c
      else c\<lparr>input_simulator := mouse_button (mb_button ev) (mb_pressed ev) (input_simulator c)\<rparr>)"
| "gui_handle (MouseScroll ev) c =
     (if \<not> gc_active c then c
      else c\<lparr>input_simulator :=
               mouse_scroll (sint (ms_dx ev)) (sint (ms_dy ev)) (input_simulator c)\<rparr>)"
| "gui_handle (Key ev pressed) c =
     (if \<not> gc_active c then c
      else c\<lparr>input_simulator :=
               key_event (ke_vkCode ev) (ke_scanCode ev) (ke_flags ev) pressed
                 (input_simulator c)\<rparr>)"
| "gui_handle (SwitchScreen ev) c =
     (let c1 = c\<lparr>gc_active := True, gc_entry_edge := sw_edge ev\<rparr>;
          pos = sint (sw_position ev);
          xy = (if sw_edge ev = ScreenEdge_LEFT then (0, pos)
                else if sw_edge ev = ScreenEdge_RIGHT then (i32 (gc_screen_width c - 1), pos)
                else if sw_edge ev = ScreenEdge_TOP then (pos, 0)
                else if sw_edge ev = ScreenEdge_BOTTOM then (pos, i32 (gc_screen_height c - 1))
                else (0, pos))
      in gui_move (clamp_to (fst xy) (gc_screen_width c))
           (clamp_to (snd xy) (gc_screen_height c)) c1)"
| "gui_handle (ScreenInfoEv info) c = c"
| "gui_handle Keepalive c = c"

text \<open>One round of the \<open>while (g_app.client_connected)\<close> loop.\<close>

definition client_thread_step :: "byte list \<Rightarrow> GuiClient \<Rightarrow> GuiClient \<times> byte list" where
  "client_thread_step stream c =
     (case gui_decode stream of
        (NoHeader, rest) \<Rightarrow> (c, rest)
      | (InvalidHeader, rest) \<Rightarrow> (c\<lparr>client_connected := False\<rparr>, rest)
      | (Truncated, rest) \<Rightarrow> (c\<lparr>client_connected := False\<rparr>, rest)
      | (Ignored, rest) \<Rightarrow> (c, rest)
      | (Event ev, rest) \<Rightarrow> (gui_handle ev c, rest))"

section \<open>Reference states and the specification's predicates\<close>

text \<open>
  Concrete states for evaluating the code: a primary \<open>A\<close> of 1920 x 1080 with a
  connected peer \<open>P\<close> placed flush on its right, first with local focus, then with
  focus on the peer and capture on.
\<close>

definition example_env :: env where
  "example_env = \<lparr>tick = 5000, steady_ms = 5000, sent = 21, sm_cyscreen = 1080\<rparr>"

definition failed_send_env :: env where
  "failed_send_env = \<lparr>tick = 5000, steady_ms = 5000, sent = - 1, sm_cyscreen = 1080\<rparr>"

definition example_peer :: ComputerInfo where
  "example_peer =
     \<lparr>name = ''P'', ip = ''10.0.0.2'', port = 24800, screen_width = 1920,
      screen_height = 1080, is_server = False, is_connected = True, last_seen = 1000,
      layout_x = 1920, layout_y = 0\<rparr>"

definition local_state :: AppState where
  "local_state =
     (init ''A'' 1920 1080 0)
       \<lparr>computers := [init_local_info ''A'' 1920 1080 0, example_peer],
        active_client := True,
        input_capture :=
          \<lparr>ic_screen_width = 1920, ic_screen_height = 1080, last_x = 1918, last_y = 500,
           running = True, captured = False, last_activity = 0,
           hook_thread_joinable = True, hook_queue = []\<rparr>\<rparr>"

definition remote_state :: AppState where
  "remote_state =
     local_state
       \<lparr>active_on_remote := True,
        input_capture :=
          \<lparr>ic_screen_width = 1920, ic_screen_height = 1080, last_x = 960, last_y = 540,
           running = True, captured = True, last_activity = 4000,
           hook_thread_joinable = True, hook_queue = []\<rparr>\<rparr>"

text \<open>
  The keys that \<open>is_emergency_key\<close> accepts, written as a set of key and modifier
  combinations: Ctrl, Alt, Delete, Scroll Lock and Win on their own, Escape while
  Ctrl is down (which covers Ctrl+Shift+Esc and Ctrl+Alt+Esc), Tab and F4 while Alt
  is down.
\<close>

definition emergency_key_set :: "u32 \<Rightarrow> bool \<Rightarrow> bool \<Rightarrow> bool" where
  "emergency_key_set vk ctrl_down alt_down =
     (vk = VK_CONTROL \<or> vk = VK_LCONTROL \<or> vk = VK_RCONTROL
      \<or> vk = VK_MENU \<or> vk = VK_LMENU \<or> vk = VK_RMENU
      \<or> vk = VK_DELETE \<or> vk = VK_SCROLL \<or> vk = VK_LWIN \<or> vk = VK_RWIN
      \<or> (vk = VK_ESCAPE \<and> ctrl_down)
      \<or> (vk = VK_TAB \<and> alt_down)
      \<or> (vk = VK_F4 \<and> alt_down))"

text \<open>
  The invariant of the specification: suppress is on only while focus is on the peer.
\<close>

definition suppress_implies_remote :: "AppState \<Rightarrow> bool" where
  "suppress_implies_remote s = (captured (input_capture s) \<longrightarrow> active_on_remote s)"

text \<open>
  The neighbour condition in the specification's words: \<open>peer\<close> is flush with the
  local rectangle \<open>loc\<close> on side \<open>edge\<close> and its extent along that side contains
  the cursor coordinate \<open>pos\<close>; and a topology has such a peer, connected and not
  the local machine.
\<close>

definition flush_peer :: "ComputerInfo \<Rightarrow> byte \<Rightarrow> int \<Rightarrow> ComputerInfo \<Rightarrow> bool" where
  "flush_peer loc edge pos peer =
     ((edge = ScreenEdge_RIGHT \<and>
         layout_x peer = layout_x loc + screen_width loc \<and>
         layout_y peer \<le> layout_y loc + pos \<and>
         layout_y loc + pos < layout_y peer + screen_height peer)
      \<or> (edge = ScreenEdge_LEFT \<and>
         layout_x peer + screen_width peer = layout_x loc \<and>
         layout_y peer \<le> layout_y loc + pos \<and>
         layout_y loc + pos < layout_y peer + screen_height peer)
      \<or> (edge = ScreenEdge_BOTTOM \<and>
         layout_y peer = layout_y loc + screen_height loc \<and>
         layout_x peer \<le> layout_x loc + pos \<and>
         layout_x loc + pos < layout_x peer + screen_width peer)
      \<or> (edge = ScreenEdge_TOP \<and>
         layout_y peer + screen_height peer = layout_y loc \<and>
         layout_x peer \<le> layout_x loc + pos \<and>
         layout_x loc + pos < layout_x peer + screen_width peer))"

definition has_flush_peer :: "AppState \<Rightarrow> byte \<Rightarrow> int \<Rightarrow> bool" where
  "has_flush_peer s edge pos =
     (\<exists>peer \<in> set (computers s).
        name peer \<noteq> computer_name s \<and> is_connected peer \<and>
        flush_peer (local_info s) edge pos peer)"

text \<open>
  A value that a 32-bit \<open>int\<close> can hold, and the condition that the sums of the
  neighbour condition are such values: the far corner of the local rectangle, the
  cursor coordinate taken from the local corner, and the far corner of every
  connected peer.
\<close>

definition fits_int :: "int \<Rightarrow> bool" where
  "fits_int v = (- 2147483648 \<le> v \<and> v \<le> 2147483647)"

definition layout_sums_fit :: "AppState \<Rightarrow> int \<Rightarrow> bool" where
  "layout_sums_fit s pos =
     (fits_int (layout_x (local_info s) + screen_width (local_info s)) \<and>
      fits_int (layout_y (local_info s) + screen_height (local_info s)) \<and>
      fits_int (layout_x (local_info s) + pos) \<and>
      fits_int (layout_y (local_info s) + pos) \<and>
      (\<forall>peer \<in> set (computers s).
         name peer \<noteq> computer_name s \<and> is_connected peer \<longrightarrow>
           fits_int (layout_x peer + screen_width peer) \<and>
           fits_int (layout_y peer + screen_height peer)))"

text \<open>
  The side of the peer's screen through which the cursor enters when it leaves the
  local screen through \<open>edge\<close>, and the SwitchScreen frame for leaving through
  \<open>edge\<close> at \<open>pos\<close>.
\<close>

definition opposite_edge :: "byte \<Rightarrow> byte" where
  "opposite_edge edge =
     (if edge = ScreenEdge_TOP then ScreenEdge_BOTTOM
      else if edge = ScreenEdge_BOTTOM then ScreenEdge_TOP
      else if edge = ScreenEdge_LEFT then ScreenEdge_RIGHT
      else if edge = ScreenEdge_RIGHT then ScreenEdge_LEFT
      else edge)"

definition switch_frame :: "env \<Rightarrow> byte \<Rightarrow> int \<Rightarrow> byte list" where
  "switch_frame e edge pos =
     encode (steady_ms e)
       (SwitchScreen \<lparr>sw_edge = opposite_edge edge, sw_position = word_of_int pos\<rparr>)"

text \<open>
  Further reference states: the peer placed flush above the primary; and a peer
  that announced a screen height of 2147483647, dragged flush to the right of the
  primary with its top at 10.
\<close>

definition peer_above_state :: AppState where
  "peer_above_state =
     local_state
       \<lparr>computers :=
          [init_local_info ''A'' 1920 1080 0, example_peer\<lparr>layout_x := 0, layout_y := - 1080\<rparr>]\<rparr>"

definition tall_peer_state :: AppState where
  "tall_peer_state =
     local_state
       \<lparr>computers :=
          [init_local_info ''A'' 1920 1080 0,
           example_peer\<lparr>screen_height := 2147483647, layout_y := 10\<rparr>]\<rparr>"

text \<open>The reference primary with its client socket invalid.\<close>

definition no_client_state :: AppState where
  "no_client_state = local_state\<lparr>active_client := False\<rparr>"


text \<open>The events for which the GUI client's switch has a case.\<close>

fun gui_has_case :: "event \<Rightarrow> bool" where
  "gui_has_case (ScreenInfoEv info) = False"
| "gui_has_case Keepalive = False"
| "gui_has_case ev = True"

text \<open>
  Reference secondaries: a 1280 x 720 machine running the GUI client, and the same
  machine running the console client, each idle and then active; a 1920 x 1080
  sender's ScreenInfo; a SwitchScreen entering on the left at sender row 500; a
  MouseScroll frame whose header declares nine payload bytes.
\<close>

definition gui_idle :: GuiClient where
  "gui_idle =
     \<lparr>client_connected = True, gc_active = False, gc_cursor_x = 0, gc_cursor_y = 0,
      gc_entry_edge = ScreenEdge_LEFT, gc_screen_width = 1280, gc_screen_height = 720,
      input_simulator =
        \<lparr>sim_screen_width = 1280, sim_screen_height = 720, current_x = 640, current_y = 360,
         injected = []\<rparr>\<rparr>"

definition console_idle :: Client where
  "console_idle =
     (new_Client
        \<lparr>sim_screen_width = 1280, sim_screen_height = 720, current_x = 640, current_y = 360,
         injected = []\<rparr>)\<lparr>connected := True\<rparr>"

definition screen_info_1080p :: ScreenInfo where
  "screen_info_1080p = \<lparr>si_width = 1920, si_height = 1080, si_x = 0, si_y = 0\<rparr>"

definition switch_left_500 :: SwitchScreenEvent where
  "switch_left_500 = \<lparr>sw_edge = ScreenEdge_LEFT, sw_position = 500\<rparr>"


text \<open>
  The scroll pipeline in the claim's words: the event the interceptor forwards for a
  wheel message with raw delta \<open>delta\<close>, and what the injector sends for it.
\<close>

definition wheel_event :: "u32 \<Rightarrow> int \<Rightarrow> MouseScrollEvent" where
  "wheel_event wParam delta =
     (if wParam = WM_MOUSEWHEEL
      then \<lparr>ms_dx = 0, ms_dy = word_of_int (delta sdiv 120)\<rparr>
      else \<lparr>ms_dx = word_of_int (delta sdiv 120), ms_dy = 0\<rparr>)"

definition wheel_input :: "u32 \<Rightarrow> int \<Rightarrow> INPUT list" where
  "wheel_input wParam delta =
     (if \<bar>delta\<bar> < 120 then []
      else [MouseInput 0 0 (word_of_int ((delta sdiv 120) * 120))
              (if wParam = WM_MOUSEWHEEL then MOUSEEVENTF_WHEEL else MOUSEEVENTF_HWHEEL)])"

text \<open>A discovery announcement from a machine \<open>P\<close>, and one with an empty name.\<close>

definition announce_P :: DiscoveryPacket where
  "announce_P =
     \<lparr>dp_magic = ''MSHR'', dp_type = 1, dp_port = 24800, dp_screen_width = 1920,
      dp_screen_height = 1080, dp_is_server = 0, dp_name = ''P''\<rparr>"

definition announce_nameless :: DiscoveryPacket where
  "announce_nameless = announce_P\<lparr>dp_name := []\<rparr>"

definition announce_Q :: DiscoveryPacket where
  "announce_Q = announce_P\<lparr>dp_screen_width := 2560, dp_screen_height := 1440, dp_name := ''Q''\<rparr>"

definition announce_wide :: DiscoveryPacket where
  "announce_wide = announce_P\<lparr>dp_screen_width := 2147483647\<rparr>"

text \<open>
  Topologies built by announcements: \<open>P\<close> heard at tick 1000; then \<open>Q\<close> heard at tick
  15000; and \<open>P\<close> announcing a screen width of 2147483647.
\<close>

definition one_peer_state :: AppState where
  "one_peer_state = on_datagram 80 announce_P ''10.0.0.2'' 1000 (init ''A'' 1920 1080 0)"

definition two_peer_state :: AppState where
  "two_peer_state = on_datagram 80 announce_Q ''10.0.0.3'' 15000 one_peer_state"

definition wide_peer_state :: AppState where
  "wide_peer_state = on_datagram 80 announce_wide ''10.0.0.2'' 1000 (init ''A'' 1920 1080 0)"

text \<open>
  The placement of a new peer in the specification's terms: the largest right edge
  \<open>layout_x + screen_width\<close> among the computers of the layout, counted from 0 on;
  and the condition that these right edges, and the position 50 beyond the largest,
  are values a 32-bit \<open>int\<close> can hold.
\<close>

definition rightmost_edge :: "ComputerInfo list \<Rightarrow> int" where
  "rightmost_edge cs = Max (insert 0 ((\<lambda>c. layout_x c + screen_width c) ` set cs))"

definition right_edges_fit :: "ComputerInfo list \<Rightarrow> bool" where
  "right_edges_fit cs =
     ((\<forall>c \<in> set cs. fits_int (layout_x c + screen_width c)) \<and>
      fits_int (rightmost_edge cs + 50))"

text \<open>
  A run of the primary in which suppress goes on and then nothing arrives: capture
  is started, a client connects at tick 3000, F8 is pressed at tick 4000.
\<close>

definition f8_down :: KBDLLHOOKSTRUCT where
  "f8_down = \<lparr>vkCode = VK_F8, scanCode = 0x42, flags = 0\<rparr>"

definition stranded_run :: "primary_event list" where
  "stranded_run =
     [StartCapture,
      ClientAccepted \<lparr>tick = 3000, steady_ms = 3000, sent = 25, sm_cyscreen = 1080\<rparr>
        ''10.0.0.2'' (0, 0),
      KeyboardHook \<lparr>tick = 4000, steady_ms = 4000, sent = 14, sm_cyscreen = 1080\<rparr>
        0 WM_KEYDOWN f8_down False False]"

text \<open>The hook thread's queue holds nothing but \<open>WM_QUIT\<close> messages.\<close>

definition only_quit_queued :: "AppState \<Rightarrow> bool" where
  "only_quit_queued s = list_all (\<lambda>msg. msg = WM_QUIT) (hook_queue (input_capture s))"

text \<open>Two states with the same local name and the same topology.\<close>

definition same_topology :: "AppState \<Rightarrow> AppState \<Rightarrow> bool" where
  "same_topology t s = (computer_name t = computer_name s \<and> computers t = computers s)"

section \<open>Helper lemma collections\<close>

lemmas ScreenEdge_defs =
  ScreenEdge_NONE_def ScreenEdge_LEFT_def ScreenEdge_RIGHT_def ScreenEdge_TOP_def
  ScreenEdge_BOTTOM_def

lemmas MouseButton_defs =
  MouseButton_LEFT_def MouseButton_MIDDLE_def MouseButton_RIGHT_def
  MouseButton_BUTTON4_def MouseButton_BUTTON5_def

lemmas EventType_defs =
  EventType_MOUSE_MOVE_def EventType_MOUSE_BUTTON_def EventType_MOUSE_SCROLL_def
  EventType_KEY_PRESS_def EventType_KEY_RELEASE_def EventType_CLIPBOARD_def
  EventType_KEEPALIVE_def EventType_SCREEN_INFO_def EventType_SWITCH_SCREEN_def

lemmas VK_defs =
  VK_TAB_def VK_CONTROL_def VK_MENU_def VK_ESCAPE_def VK_DELETE_def VK_LWIN_def
  VK_RWIN_def VK_F4_def VK_F8_def VK_SCROLL_def VK_LCONTROL_def VK_RCONTROL_def
  VK_LMENU_def VK_RMENU_def

lemmas WM_defs =
  WM_KEYDOWN_def WM_KEYUP_def WM_SYSKEYDOWN_def WM_SYSKEYUP_def WM_MOUSEMOVE_def
  WM_LBUTTONDOWN_def WM_LBUTTONUP_def WM_RBUTTONDOWN_def WM_RBUTTONUP_def
  WM_MBUTTONDOWN_def WM_MBUTTONUP_def WM_MOUSEWHEEL_def WM_XBUTTONDOWN_def
  WM_XBUTTONUP_def WM_MOUSEHWHEEL_def

lemmas sizeof_defs =
  sizeof_MouseMoveEvent_def sizeof_MouseButtonEvent_def sizeof_MouseScrollEvent_def
  sizeof_KeyEvent_def sizeof_ScreenInfo_def sizeof_SwitchScreenEvent_def
  sizeof_PacketHeader_def


section \<open>32-bit arithmetic\<close>

lemma i32_id: "fits_int v \<Longrightarrow> i32 v = v"
  by (simp add: i32_def fits_int_def)

lemma fits_int_i32: "fits_int (i32 v)"
proof -
  have "0 \<le> (v + 2147483648) mod 4294967296" "(v + 2147483648) mod 4294967296 < 4294967296"
    by simp_all
  then show ?thesis by (simp add: i32_def fits_int_def)
qed

lemma word_of_int_mod: "(word_of_int (k mod 4294967296) :: u32) = word_of_int k"
  by (simp add: word_of_int_eq_iff take_bit_eq_mod)

lemma word_of_int_i32 [simp]: "(word_of_int (i32 v) :: u32) = word_of_int v"
proof -
  have "(word_of_int (i32 v) :: u32)
          = word_of_int ((v + 2147483648) mod 4294967296) - 2147483648"
    by (simp add: i32_def)
  also have "\<dots> = word_of_int (v + 2147483648) - 2147483648"
    by (simp only: word_of_int_mod)
  also have "\<dots> = word_of_int v" by simp
  finally show ?thesis .
qed

lemma fits_int_sint: "fits_int (sint (w :: u32))"
  using sint_ge [of w] sint_lt [of w] by (simp add: fits_int_def)

lemma i32_sint [simp]: "i32 (sint (w :: u32)) = sint w"
  by (rule i32_id) (rule fits_int_sint)

section \<open>The codec reads back what it wrote\<close>

lemma rd16_le16 [simp]: "rd16 (le16 w @ bs) = w"
  unfolding le16_def
  apply simp
  apply (rule bit_word_eqI)
  apply (auto simp add: bit_simps)
  done

lemma rd32_le32 [simp]: "rd32 (le32 w @ bs) = w"
  unfolding le32_def
  apply simp
  apply (rule bit_word_eqI)
  subgoal for n
    apply (cases "n < 8"; cases "n < 16"; cases "n < 24")
           apply (simp_all add: bit_simps not_less)
    apply auto
    done
  done

lemma length_le16 [simp]: "length (le16 w) = 2"
  by (simp add: le16_def)

lemma length_le32 [simp]: "length (le32 w) = 4"
  by (simp add: le32_def)

lemma byte_bool_bool_byte [simp]: "byte_bool (bool_byte b # bs) = b"
  by (simp add: byte_bool_def bool_byte_def)

lemma read_bytes_PacketHeader [simp]: "read_PacketHeader (bytes_PacketHeader h @ bs) = h"
  by (cases h) (simp add: read_PacketHeader_def bytes_PacketHeader_def byte_at_def)

lemma read_bytes_PacketHeader_exact [simp]: "read_PacketHeader (bytes_PacketHeader h) = h"
  using read_bytes_PacketHeader [of h "[]"] by simp

lemma length_bytes_PacketHeader [simp]: "length (bytes_PacketHeader h) = 9"
  by (simp add: bytes_PacketHeader_def)

lemma read_bytes_MouseMoveEvent [simp]: "read_MouseMoveEvent (bytes_MouseMoveEvent e @ bs) = e"
  by (cases e) (simp add: read_MouseMoveEvent_def bytes_MouseMoveEvent_def)

lemma read_bytes_MouseButtonEvent [simp]:
  "read_MouseButtonEvent (bytes_MouseButtonEvent e @ bs) = e"
  by (cases e) (simp add: read_MouseButtonEvent_def bytes_MouseButtonEvent_def byte_at_def)

lemma read_bytes_MouseScrollEvent [simp]:
  "read_MouseScrollEvent (bytes_MouseScrollEvent e @ bs) = e"
  by (cases e) (simp add: read_MouseScrollEvent_def bytes_MouseScrollEvent_def)

lemma read_bytes_KeyEvent [simp]: "read_KeyEvent (bytes_KeyEvent e @ bs) = e"
  by (cases e) (simp add: read_KeyEvent_def bytes_KeyEvent_def)

lemma read_bytes_ScreenInfo [simp]: "read_ScreenInfo (bytes_ScreenInfo e @ bs) = e"
  by (cases e) (simp add: read_ScreenInfo_def bytes_ScreenInfo_def)

lemma read_bytes_SwitchScreenEvent [simp]:
  "read_SwitchScreenEvent (bytes_SwitchScreenEvent e @ bs) = e"
  by (cases e) (simp add: read_SwitchScreenEvent_def bytes_SwitchScreenEvent_def byte_at_def)

lemma length_bytes [simp]:
  "length (bytes_MouseMoveEvent a) = 16"
  "length (bytes_MouseButtonEvent b) = 2"
  "length (bytes_MouseScrollEvent c) = 8"
  "length (bytes_KeyEvent d) = 12"
  "length (bytes_ScreenInfo f) = 16"
  "length (bytes_SwitchScreenEvent g) = 5"
  by (simp_all add: bytes_MouseMoveEvent_def bytes_MouseButtonEvent_def
      bytes_MouseScrollEvent_def bytes_KeyEvent_def bytes_ScreenInfo_def
      bytes_SwitchScreenEvent_def)

text \<open>A \<open>uint16_t\<close> is never above 65535: both size checks are always passed.\<close>

lemma u16_not_above_max: "\<not> (w :: u16) > 65535"
proof -
  have "unat w < 2 ^ 16" using unsigned_less [of w, where ?'a = nat] by simp
  then show ?thesis by (simp add: word_less_nat_alt)
qed

lemma is_valid_packet_header_iff: "is_valid_packet_header h = (version h = PROTOCOL_VERSION)"
  unfolding is_valid_packet_header_def MAX_PAYLOAD_SIZE_def
  using u16_not_above_max by simp

text \<open>What each decoder makes of a header followed by any bytes.\<close>

lemma decode_frame:
  "decode (bytes_PacketHeader h @ body) =
     (if version h \<noteq> PROTOCOL_VERSION then (InvalidHeader, body)
      else if length body < unat (payload_size h) then (Truncated, [])
      else (case dispatch (type h) (take (unat (payload_size h)) body) of
              None \<Rightarrow> (Ignored, drop (unat (payload_size h)) body)
            | Some ev \<Rightarrow> (Event ev, drop (unat (payload_size h)) body)))"
proof (cases "payload_size h = 0")
  case True
  then show ?thesis
    by (simp add: decode_def recv_exact_def sizeof_defs recv_payload_def Let_def
        is_valid_packet_header_iff split: option.split)
next
  case False
  then show ?thesis
    by (simp add: decode_def recv_exact_def sizeof_defs recv_payload_def Let_def
        is_valid_packet_header_iff word_greater_zero_iff not_less)
qed

lemma gui_decode_frame:
  "gui_decode (bytes_PacketHeader h @ body) =
     (if length body < unat (payload_size h) then (Truncated, [])
      else (case gui_dispatch (type h) (take (unat (payload_size h)) body) of
              None \<Rightarrow> (Ignored, drop (unat (payload_size h)) body)
            | Some ev \<Rightarrow> (Event ev, drop (unat (payload_size h)) body)))"
proof -
  have m: "(65535 < payload_size h) = False"
    using u16_not_above_max by simp
  show ?thesis
  proof (cases "payload_size h = 0")
    case True
    then show ?thesis
      by (simp add: gui_decode_def recv_exact_def sizeof_defs recv_payload_def Let_def m
          split: option.split)
  next
    case False
    then show ?thesis
      by (simp add: gui_decode_def recv_exact_def sizeof_defs recv_payload_def Let_def
          word_greater_zero_iff not_less m)
  qed
qed

lemma serialize_packet_frame:
  "serialize_packet ts ty payload =
     bytes_PacketHeader
       \<lparr>version = PROTOCOL_VERSION, type = ty, timestamp = ts,
        payload_size = of_nat (length payload)\<rparr> @ payload"
  by (simp add: serialize_packet_def)

lemma decode_serialize_packet:
  assumes "length payload < 65536"
  shows "decode (serialize_packet ts ty payload @ rest) =
     (case dispatch ty payload of None \<Rightarrow> (Ignored, rest) | Some ev \<Rightarrow> (Event ev, rest))"
proof -
  have u: "unat (word_of_nat (length payload) :: u16) = length payload"
    using assms by (simp add: unat_of_nat)
  show ?thesis
    using decode_frame
      [of "\<lparr>version = PROTOCOL_VERSION, type = ty, timestamp = ts,
            payload_size = of_nat (length payload)\<rparr>" "payload @ rest"] u
    by (simp add: serialize_packet_frame split: option.split)
qed

lemma gui_decode_serialize_packet:
  assumes "length payload < 65536"
  shows "gui_decode (serialize_packet ts ty payload @ rest) =
     (case gui_dispatch ty payload of None \<Rightarrow> (Ignored, rest) | Some ev \<Rightarrow> (Event ev, rest))"
proof -
  have u: "unat (word_of_nat (length payload) :: u16) = length payload"
    using assms by (simp add: unat_of_nat)
  show ?thesis
    using gui_decode_frame
      [of "\<lparr>version = PROTOCOL_VERSION, type = ty, timestamp = ts,
            payload_size = of_nat (length payload)\<rparr>" "payload @ rest"] u
    by (simp add: serialize_packet_frame split: option.split)
qed

lemma dispatch_bytes:
  "dispatch EventType_MOUSE_MOVE (bytes_MouseMoveEvent a) = Some (MouseMove a)"
  "dispatch EventType_MOUSE_BUTTON (bytes_MouseButtonEvent b) = Some (MouseButton b)"
  "dispatch EventType_MOUSE_SCROLL (bytes_MouseScrollEvent c) = Some (MouseScroll c)"
  "dispatch (if p then EventType_KEY_PRESS else EventType_KEY_RELEASE) (bytes_KeyEvent d)
     = Some (Key d p)"
  "dispatch EventType_SCREEN_INFO (bytes_ScreenInfo f) = Some (ScreenInfoEv f)"
  "dispatch EventType_SWITCH_SCREEN (bytes_SwitchScreenEvent g) = Some (SwitchScreen g)"
  using read_bytes_MouseMoveEvent [of a "[]"] read_bytes_MouseButtonEvent [of b "[]"]
    read_bytes_MouseScrollEvent [of c "[]"] read_bytes_KeyEvent [of d "[]"]
    read_bytes_ScreenInfo [of f "[]"] read_bytes_SwitchScreenEvent [of g "[]"]
  by (simp_all add: dispatch_def sizeof_defs EventType_defs)

lemma gui_dispatch_bytes:
  "gui_dispatch EventType_MOUSE_MOVE (bytes_MouseMoveEvent a) = Some (MouseMove a)"
  "gui_dispatch EventType_MOUSE_BUTTON (bytes_MouseButtonEvent b) = Some (MouseButton b)"
  "gui_dispatch EventType_MOUSE_SCROLL (bytes_MouseScrollEvent c) = Some (MouseScroll c)"
  "gui_dispatch (if p then EventType_KEY_PRESS else EventType_KEY_RELEASE) (bytes_KeyEvent d)
     = Some (Key d p)"
  "gui_dispatch EventType_SCREEN_INFO (bytes_ScreenInfo f) = None"
  "gui_dispatch EventType_SWITCH_SCREEN (bytes_SwitchScreenEvent g) = Some (SwitchScreen g)"
  using read_bytes_MouseMoveEvent [of a "[]"] read_bytes_MouseButtonEvent [of b "[]"]
    read_bytes_MouseScrollEvent [of c "[]"] read_bytes_KeyEvent [of d "[]"]
    read_bytes_SwitchScreenEvent [of g "[]"]
  by (simp_all add: gui_dispatch_def sizeof_defs EventType_defs)

text \<open>
  The console client's decoder returns every event that \<open>encode\<close> wrote, whatever
  follows it in the stream.
\<close>

lemma decode_encode: "decode (encode ts e @ rest) = (Event e, rest)"
proof (cases e)
  case (Key d p)
  then show ?thesis
    using decode_serialize_packet [of "bytes_KeyEvent d" ts
        "if p then EventType_KEY_PRESS else EventType_KEY_RELEASE" rest]
    by (simp add: dispatch_bytes)
next
  case Keepalive
  then show ?thesis
    by (simp add: decode_frame serialize_keepalive_def PROTOCOL_VERSION_def dispatch_def
        EventType_defs)
qed (simp_all add: decode_serialize_packet dispatch_bytes)

text \<open>
  The GUI client's loop returns the five kinds its switch has a case for, and takes
  the default branch for ScreenInfo and Keepalive.
\<close>

lemma gui_decode_encode:
  "gui_decode (encode ts e @ rest) = (if gui_has_case e then (Event e, rest) else (Ignored, rest))"
proof (cases e)
  case (Key d p)
  then show ?thesis
    using gui_decode_serialize_packet [of "bytes_KeyEvent d" ts
        "if p then EventType_KEY_PRESS else EventType_KEY_RELEASE" rest]
    by (simp add: gui_dispatch_bytes)
next
  case Keepalive
  then show ?thesis
    by (simp add: gui_decode_frame serialize_keepalive_def gui_dispatch_def EventType_defs)
qed (simp_all add: gui_decode_serialize_packet gui_dispatch_bytes)

text \<open>
  C6 at its failing input. The GUI server sends a ScreenInfo frame to each client
  it accepts. The GUI client's loop has no case for it: the frame of a 1920 x 1080
  sender decodes to nothing there, while the console client's \<open>process_events\<close>
  decodes the same bytes to the event that was encoded.
\<close>

theorem C6_gui_client_drops_screen_info:
  "gui_decode (encode 0 (ScreenInfoEv screen_info_1080p)) = (Ignored, []) \<and>
   decode (encode 0 (ScreenInfoEv screen_info_1080p))
     = (Event (ScreenInfoEv screen_info_1080p), [])"
  using gui_decode_encode [of 0 "ScreenInfoEv screen_info_1080p" "[]"]
    decode_encode [of 0 "ScreenInfoEv screen_info_1080p" "[]"]
  by simp

section \<open>Frames the decoders refuse\<close>








text \<open>The GUI client never looks at the version field.\<close>

lemma gui_decode_any_version:
  "gui_decode (bytes_PacketHeader (h\<lparr>version := v\<rparr>) @ body)
     = gui_decode (bytes_PacketHeader h @ body)"
  by (simp add: gui_decode_frame cong: option.case_cong)

section \<open>Entering the secondary\<close>

text \<open>
  C2 at its failing input, a GUI client of 1280 x 720 served by a 1920 x 1080
  primary. The ScreenInfo frame changes nothing in the client. The SwitchScreen
  frame for the left edge at sender row 500 puts the cursor at row 500, the
  sender's coordinate clamped to the screen, where scaling gives 500 * 720 / 1080
  = 333.
\<close>

theorem C2_gui_switch_screen_not_scaled:
  "client_thread_step (encode 0 (ScreenInfoEv screen_info_1080p)) gui_idle = (gui_idle, []) \<and>
   gc_cursor_y (fst (client_thread_step (encode 0 (SwitchScreen switch_left_500)) gui_idle))
     = 500 \<and>
   scale_position 500 1080 720 = 333"
  using gui_decode_encode [of 0 "ScreenInfoEv screen_info_1080p" "[]"]
    gui_decode_encode [of 0 "SwitchScreen switch_left_500" "[]"]
  by (simp add: client_thread_step_def gui_idle_def switch_left_500_def gui_move_def clamp_to_def
      scale_position_def i32_def Let_def)

text \<open>
  The GUI client on any SwitchScreen: active, entry edge recorded, the cursor on
  the entry edge at the sender's coordinate clamped to the local screen, and one
  absolute move to it.
\<close>

lemma gui_switch_screen:
  "gui_handle (SwitchScreen ev) g = g' \<Longrightarrow>
   gc_active g' \<and> gc_entry_edge g' = sw_edge ev \<and>
   (sw_edge ev = ScreenEdge_LEFT \<longrightarrow>
      gc_cursor_x g' = clamp_to 0 (gc_screen_width g) \<and>
      gc_cursor_y g' = clamp_to (sint (sw_position ev)) (gc_screen_height g)) \<and>
   (sw_edge ev = ScreenEdge_RIGHT \<longrightarrow>
      gc_cursor_x g' = clamp_to (i32 (gc_screen_width g - 1)) (gc_screen_width g) \<and>
      gc_cursor_y g' = clamp_to (sint (sw_position ev)) (gc_screen_height g)) \<and>
   (sw_edge ev = ScreenEdge_TOP \<longrightarrow>
      gc_cursor_x g' = clamp_to (sint (sw_position ev)) (gc_screen_width g) \<and>
      gc_cursor_y g' = clamp_to 0 (gc_screen_height g)) \<and>
   (sw_edge ev = ScreenEdge_BOTTOM \<longrightarrow>
      gc_cursor_x g' = clamp_to (sint (sw_position ev)) (gc_screen_width g) \<and>
      gc_cursor_y g' = clamp_to (i32 (gc_screen_height g - 1)) (gc_screen_height g)) \<and>
   input_simulator g' = move_mouse (gc_cursor_x g') (gc_cursor_y g') (input_simulator g)"
  by (auto simp add: gui_move_def Let_def ScreenEdge_defs)

text \<open>
  The console client does what the claim says: ScreenInfo stores the sender's
  size, and SwitchScreen scales the coordinate by it (sizes positive; the product
  is formed in 32 bits).
\<close>

lemma console_client_screen_info:
  "server_width (handle_screen_info info c) = sint (si_width info) \<and>
   server_height (handle_screen_info info c) = sint (si_height info)"
  by (simp add: handle_screen_info_def)

lemma console_client_scales:
  assumes "0 < server_width c" "0 < server_height c"
    "0 < sim_screen_width (simulator c)" "0 < sim_screen_height (simulator c)"
  shows "handle_switch_screen ev c = c' \<Longrightarrow>
     active c' \<and> entry_edge c' = sw_edge ev \<and>
     (sw_edge ev = ScreenEdge_LEFT \<longrightarrow>
        cursor_x c' = 0 \<and>
        cursor_y c'
          = i32 (sint (sw_position ev) * sim_screen_height (simulator c)) sdiv server_height c) \<and>
     (sw_edge ev = ScreenEdge_RIGHT \<longrightarrow>
        cursor_x c' = i32 (sim_screen_width (simulator c) - 1) \<and>
        cursor_y c'
          = i32 (sint (sw_position ev) * sim_screen_height (simulator c)) sdiv server_height c) \<and>
     (sw_edge ev = ScreenEdge_TOP \<longrightarrow>
        cursor_y c' = 0 \<and>
        cursor_x c'
          = i32 (sint (sw_position ev) * sim_screen_width (simulator c)) sdiv server_width c) \<and>
     (sw_edge ev = ScreenEdge_BOTTOM \<longrightarrow>
        cursor_y c' = i32 (sim_screen_height (simulator c) - 1) \<and>
        cursor_x c'
          = i32 (sint (sw_position ev) * sim_screen_width (simulator c)) sdiv server_width c) \<and>
     simulator c' = move_mouse (cursor_x c') (cursor_y c') (simulator c)"
  using assms
  by (auto simp add: handle_switch_screen_def Let_def scale_position_def ScreenEdge_defs)

section \<open>Scroll wheel\<close>

lemma wheel_delta_range:
  "- 32768 \<le> GET_WHEEL_DELTA_WPARAM d \<and> GET_WHEEL_DELTA_WPARAM d < 32768"
  using sint_ge [of "HIWORD d"] sint_lt [of "HIWORD d"]
  by (simp add: GET_WHEEL_DELTA_WPARAM_def)

lemma notches_zero_iff: "(a sdiv 120 = 0) = (\<bar>a\<bar> < 120)" for a :: int
  by (auto simp add: signed_divide_int_def sgn_if div_eq_0_iff)

lemma notches_bound: "\<bar>a sdiv 120\<bar> \<le> \<bar>a\<bar>" for a :: int
proof -
  have "\<bar>a sdiv 120\<bar> = \<bar>a\<bar> div 120"
    by (simp add: signed_divide_int_def abs_mult sgn_if)
  also have "\<dots> \<le> \<bar>a\<bar>" by linarith
  finally show ?thesis .
qed

lemma sint_notches:
  assumes "- 32768 \<le> a" "a < 32768"
  shows "sint (word_of_int (a sdiv 120) :: u32) = a sdiv 120"
proof -
  have "\<bar>a sdiv 120\<bar> \<le> 32768" using notches_bound [of a] assms by linarith
  then have "- 2147483648 \<le> a sdiv 120 \<and> a sdiv 120 < 2147483648"
    by linarith
  then show ?thesis
    by (simp add: sint_sbintrunc' signed_take_bit_int_eq_self)
qed

lemma injected_mouse_scroll:
  "injected (mouse_scroll 0 (a sdiv 120) sim) = injected sim @ wheel_input WM_MOUSEWHEEL a"
  "injected (mouse_scroll (a sdiv 120) 0 sim) = injected sim @ wheel_input WM_MOUSEHWHEEL a"
  by (simp_all add: mouse_scroll_def Let_def wheel_input_def notches_zero_iff SendInput_def
      WHEEL_DELTA_def WM_defs)

text \<open>
  C10. Take a wheel message, vertical or horizontal, with raw delta \<open>d\<close>, while
  the primary has focus on the peer, a valid client socket and a send that
  succeeds. The hook puts exactly one MouseScroll frame on the wire, carrying
  \<open>d / 120\<close> truncated towards zero. An active secondary, GUI or console, that
  receives this frame injects nothing when \<open>|d| < 120\<close>, and otherwise one wheel
  input whose amount is \<open>(d / 120) * 120\<close>.
\<close>

theorem C10_wheel_quantised_to_notches:
  assumes "active_on_remote s" "active_client s" "0 < sent e" "0 \<le> nCode"
    and "wParam = WM_MOUSEWHEEL \<or> wParam = WM_MOUSEHWHEEL"
    and "gc_active g" "active c"
  shows
    "wire (snd (mouse_hook_proc (on_mouse_move e) (on_mouse_button e) (on_mouse_scroll e)
                  (tick e) nCode wParam ms s))
       = wire s @ [encode (steady_ms e)
                     (MouseScroll (wheel_event wParam (GET_WHEEL_DELTA_WPARAM (mouseData ms))))]
     \<and> injected (input_simulator (fst (client_thread_step
          (encode (steady_ms e)
             (MouseScroll (wheel_event wParam (GET_WHEEL_DELTA_WPARAM (mouseData ms))))) g)))
       = injected (input_simulator g) @ wheel_input wParam (GET_WHEEL_DELTA_WPARAM (mouseData ms))
     \<and> injected (simulator (fst (process_events fatal now
          (encode (steady_ms e)
             (MouseScroll (wheel_event wParam (GET_WHEEL_DELTA_WPARAM (mouseData ms))))) c)))
       = injected (simulator c) @ wheel_input wParam (GET_WHEEL_DELTA_WPARAM (mouseData ms))"
proof -
  let ?d = "GET_WHEEL_DELTA_WPARAM (mouseData ms)"
  let ?ev = "MouseScroll (wheel_event wParam ?d)"
  let ?frame = "encode (steady_ms e) ?ev"
  have r: "sint (word_of_int (?d sdiv 120) :: u32) = ?d sdiv 120"
    using wheel_delta_range [of "mouseData ms"] sint_notches by blast
  have w: "wire (snd (mouse_hook_proc (on_mouse_move e) (on_mouse_button e) (on_mouse_scroll e)
                  (tick e) nCode wParam ms s)) = wire s @ [?frame]"
    using assms(1-5)
    by (auto simp add: mouse_hook_proc_def mouse_dispatch_def WM_defs Let_def touch_activity_def
        on_mouse_scroll_def push_wire_def wheel_event_def WHEEL_DELTA_def)
  have g: "client_thread_step ?frame g = (gui_handle ?ev g, [])"
    using gui_decode_encode [of "steady_ms e" ?ev "[]"]
    by (simp add: client_thread_step_def)
  have c: "process_events fatal now ?frame c = (handle ?ev (c\<lparr>last_data_received := now\<rparr>), [])"
    using decode_encode [of "steady_ms e" ?ev "[]"]
    by (simp add: process_events_def)
  show ?thesis
    using w g c r assms(5-7)
    by (auto simp add: handle_mouse_scroll_def wheel_event_def injected_mouse_scroll WM_defs)
qed

theorem C10_witness:
  "active_on_remote remote_state \<and> active_client remote_state \<and> 0 < sent example_env \<and>
   GET_WHEEL_DELTA_WPARAM 0x003C0000 = 60 \<and>
   wire (snd (mouse_hook_proc (on_mouse_move example_env) (on_mouse_button example_env)
                (on_mouse_scroll example_env) 5000 0 WM_MOUSEWHEEL
                \<lparr>pt_x = 960, pt_y = 540, mouseData = 0x003C0000\<rparr> remote_state))
     = [encode 5000 (MouseScroll \<lparr>ms_dx = 0, ms_dy = 0\<rparr>)] \<and>
   injected (input_simulator (fst (client_thread_step
      (encode 5000 (MouseScroll \<lparr>ms_dx = 0, ms_dy = 0\<rparr>)) (gui_idle\<lparr>gc_active := True\<rparr>))))
     = [] \<and>
   injected (simulator (fst (process_events False 7
      (encode 5000 (MouseScroll \<lparr>ms_dx = 0, ms_dy = 0\<rparr>)) (console_idle\<lparr>active := True\<rparr>))))
     = []"
proof -
  have d: "GET_WHEEL_DELTA_WPARAM 0x003C0000 = 60"
    by (simp add: GET_WHEEL_DELTA_WPARAM_def HIWORD_def)
  have a: "active_on_remote remote_state" "active_client remote_state" "0 < sent example_env"
    "wire remote_state = []"
    by (simp_all add: remote_state_def local_state_def init_def example_env_def)
  have t: "tick example_env = 5000" "steady_ms example_env = 5000"
    by (simp_all add: example_env_def)
  have b: "gc_active (gui_idle\<lparr>gc_active := True\<rparr>)" "active (console_idle\<lparr>active := True\<rparr>)"
    "injected (input_simulator (gui_idle\<lparr>gc_active := True\<rparr>)) = []"
    "injected (simulator (console_idle\<lparr>active := True\<rparr>)) = []"
    by (simp_all add: gui_idle_def console_idle_def new_Client_def)
  show ?thesis
    using C10_wheel_quantised_to_notches
      [where s = remote_state and e = example_env and nCode = 0 and wParam = WM_MOUSEWHEEL
         and g = "gui_idle\<lparr>gc_active := True\<rparr>" and c = "console_idle\<lparr>active := True\<rparr>"
         and ms = "\<lparr>pt_x = 960, pt_y = 540, mouseData = 0x003C0000\<rparr>"
         and fatal = False and now = 7]
      a b d t
    by (simp add: wheel_event_def wheel_input_def)
qed

text \<open>A raw delta of -360 arrives as three notches down, injected as -360.\<close>

lemma wheel_three_notches_down:
  "GET_WHEEL_DELTA_WPARAM 0xFE980000 = - 360 \<and>
   wheel_event WM_MOUSEWHEEL (- 360) = \<lparr>ms_dx = 0, ms_dy = - 3\<rparr> \<and>
   wheel_input WM_MOUSEWHEEL (- 360) = [MouseInput 0 0 (- 360) MOUSEEVENTF_WHEEL] \<and>
   wheel_input WM_MOUSEWHEEL (- 119) = []"
  by (simp add: GET_WHEEL_DELTA_WPARAM_def HIWORD_def wheel_event_def wheel_input_def)

section \<open>Emergency keys\<close>

lemma is_emergency_key_iff: "is_emergency_key vk c a = emergency_key_set vk c a"
  by (auto simp add: is_emergency_key_def emergency_key_set_def)

text \<open>
  C4, as the code has it. Every keyboard event in the emergency set (Ctrl, Alt,
  Delete, Scroll Lock, Win, Escape with Ctrl down, Tab with Alt down, F4 with Alt
  down) is passed on by the keyboard hook whatever the capture flag and whatever
  the key callback is, and a Ctrl+Alt+Escape key-down leaves capture off. F8 is
  not in the set.
\<close>

theorem C4_emergency_keys_propagate:
  assumes "emergency_key_set (vkCode kb) ctrl_down alt_down"
  shows "fst (keyboard_hook_proc key_cb now nCode wParam kb ctrl_down alt_down s) = CallNextHookEx
     \<and> (vkCode kb = VK_ESCAPE \<and> ctrl_down \<and> alt_down \<and> 0 \<le> nCode \<and>
          (wParam = WM_KEYDOWN \<or> wParam = WM_SYSKEYDOWN) \<longrightarrow>
        \<not> captured (input_capture
             (snd (keyboard_hook_proc key_cb now nCode wParam kb ctrl_down alt_down s))))"
  using assms
  by (auto simp add: is_emergency_key_iff keyboard_hook_proc_def Let_def set_captured_def)

theorem C4_witness:
  "emergency_key_set VK_ESCAPE True True \<and>
   keyboard_hook_proc (on_key example_env) 5000 0 WM_KEYDOWN
       \<lparr>vkCode = VK_ESCAPE, scanCode = 1, flags = 0\<rparr> True True remote_state
     = (CallNextHookEx, set_captured False remote_state)"
proof -
  have h: "emergency_key_set (vkCode \<lparr>vkCode = VK_ESCAPE, scanCode = 1, flags = 0\<rparr>) True True"
    by (simp add: emergency_key_set_def)
  show ?thesis
    using C4_emergency_keys_propagate
            [OF h, of "on_key example_env" 5000 0 WM_KEYDOWN remote_state]
    by (simp add: emergency_key_set_def keyboard_hook_proc_def is_emergency_key_def VK_defs)
qed

text \<open>
  C4 as claimed fails for F8: with capture on, the release of F8 is not an
  emergency key, goes to the key callback (which forwards it) and is blocked.
\<close>

theorem C4_counterexample:
  "captured (input_capture remote_state) \<and>
   \<not> emergency_key_set VK_F8 False False \<and>
   fst (keyboard_hook_proc (on_key example_env) 5000 0 WM_KEYUP
          \<lparr>vkCode = VK_F8, scanCode = 66, flags = 0\<rparr> False False remote_state) = Blocked"
  by (simp add: keyboard_hook_proc_def is_emergency_key_def emergency_key_set_def VK_defs WM_defs
      Let_def on_key_def remote_state_def local_state_def init_def example_env_def
      touch_activity_def push_wire_def)

section \<open>Scroll Lock\<close>

text \<open>
  C3 at its failing input. With focus on the peer and capture on, a Scroll Lock
  key-down goes through the keyboard hook: the hook clears capture and returns
  before it would call the key callback, so \<open>active_on_remote\<close> stays true.
\<close>

theorem C3_scroll_lock_leaves_focus_remote:
  "active_on_remote remote_state \<and>
   keyboard_hook_proc (on_key example_env) 5000 0 WM_KEYDOWN
       \<lparr>vkCode = VK_SCROLL, scanCode = 70, flags = 0\<rparr> False False remote_state
     = (CallNextHookEx, set_captured False remote_state) \<and>
   active_on_remote (set_captured False remote_state)"
  by (simp add: keyboard_hook_proc_def is_emergency_key_def VK_defs WM_defs Let_def
      remote_state_def local_state_def init_def set_captured_def)

text \<open>The same for every state and every callback: the hook never changes focus.\<close>

lemma scroll_lock_keeps_focus:
  "active_on_remote
     (snd (keyboard_hook_proc key_cb now nCode wParam
             \<lparr>vkCode = VK_SCROLL, scanCode = sc, flags = fl\<rparr> ctrl_down alt_down s))
   = active_on_remote s"
  by (simp add: keyboard_hook_proc_def is_emergency_key_def VK_defs Let_def set_captured_def)

text \<open>It does clear capture on every Scroll Lock key-down.\<close>

lemma scroll_lock_clears_capture:
  "0 \<le> nCode \<Longrightarrow> wParam = WM_KEYDOWN \<or> wParam = WM_SYSKEYDOWN \<Longrightarrow>
   \<not> captured (input_capture
        (snd (keyboard_hook_proc key_cb now nCode wParam
                \<lparr>vkCode = VK_SCROLL, scanCode = sc, flags = fl\<rparr> ctrl_down alt_down s)))"
  by (auto simp add: keyboard_hook_proc_def is_emergency_key_def VK_defs Let_def set_captured_def)

text \<open>The key callback on its own, were it called, would return focus.\<close>

lemma on_key_scroll_lock:
  "\<not> active_on_remote (on_key e VK_SCROLL sc fl True s)"
  by (simp add: on_key_def VK_defs release_to_local_def Let_def)

section \<open>Suppress only while the focus is remote\<close>

lemma inv_release_to_local: "suppress_implies_remote (release_to_local e s)"
  by (simp add: suppress_implies_remote_def release_to_local_def capture_input_def Let_def)

lemma inv_push_wire [simp]: "suppress_implies_remote (push_wire d s) = suppress_implies_remote s"
  by (simp add: suppress_implies_remote_def push_wire_def)

lemma inv_app_warp_cursor [simp]:
  "suppress_implies_remote (app_warp_cursor x y s) = suppress_implies_remote s"
  by (simp add: suppress_implies_remote_def app_warp_cursor_def warp_cursor_def)

lemma inv_touch_activity [simp]:
  "suppress_implies_remote (touch_activity now s) = suppress_implies_remote s"
  by (simp add: suppress_implies_remote_def touch_activity_def)

lemma inv_set_captured_False: "suppress_implies_remote (set_captured False s)"
  by (simp add: suppress_implies_remote_def set_captured_def)

lemma inv_on_mouse_move:
  "suppress_implies_remote s \<Longrightarrow> suppress_implies_remote (on_mouse_move e x y dx dy s)"
  by (auto simp add: on_mouse_move_def Let_def inv_release_to_local split: prod.splits)
     (simp_all add: suppress_implies_remote_def)

lemma inv_on_mouse_button:
  "suppress_implies_remote s \<Longrightarrow> suppress_implies_remote (on_mouse_button e b p s)"
  by (simp add: on_mouse_button_def Let_def inv_release_to_local)

lemma inv_on_mouse_scroll:
  "suppress_implies_remote s \<Longrightarrow> suppress_implies_remote (on_mouse_scroll e dx dy s)"
  by (simp add: on_mouse_scroll_def Let_def inv_release_to_local)

lemma inv_on_key:
  "suppress_implies_remote s \<Longrightarrow> suppress_implies_remote (on_key e vk sc fl p s)"
  by (auto simp add: on_key_def Let_def inv_release_to_local)
     (simp_all add: suppress_implies_remote_def capture_input_def)

lemma inv_keyboard_hook:
  assumes "\<And>vk sc fl p t. suppress_implies_remote t \<Longrightarrow> suppress_implies_remote (key_cb vk sc fl p t)"
    and "suppress_implies_remote s"
  shows "suppress_implies_remote (snd (keyboard_hook_proc key_cb now nCode wParam kb c a s))"
  using assms
  by (auto simp add: keyboard_hook_proc_def Let_def inv_set_captured_False)

lemma inv_mouse_dispatch:
  assumes "\<And>x y dx dy t. suppress_implies_remote t \<Longrightarrow> suppress_implies_remote (move_cb x y dx dy t)"
    and "\<And>b p t. suppress_implies_remote t \<Longrightarrow> suppress_implies_remote (button_cb b p t)"
    and "\<And>dx dy t. suppress_implies_remote t \<Longrightarrow> suppress_implies_remote (scroll_cb dx dy t)"
    and "suppress_implies_remote s"
  shows "suppress_implies_remote (mouse_dispatch move_cb button_cb scroll_cb wParam ms s)"
proof -
  have upd: "\<And>t x y. \<not> captured (input_capture t) \<Longrightarrow>
      suppress_implies_remote (t\<lparr>input_capture := (input_capture t)\<lparr>last_x := x, last_y := y\<rparr>\<rparr>)"
    by (simp add: suppress_implies_remote_def)
  show ?thesis
    using assms by (auto simp add: mouse_dispatch_def Let_def upd)
qed

lemma inv_mouse_hook:
  assumes "\<And>x y dx dy t. suppress_implies_remote t \<Longrightarrow> suppress_implies_remote (move_cb x y dx dy t)"
    and "\<And>b p t. suppress_implies_remote t \<Longrightarrow> suppress_implies_remote (button_cb b p t)"
    and "\<And>dx dy t. suppress_implies_remote t \<Longrightarrow> suppress_implies_remote (scroll_cb dx dy t)"
    and "suppress_implies_remote s"
  shows "suppress_implies_remote
           (snd (mouse_hook_proc move_cb button_cb scroll_cb now nCode wParam ms s))"
  using inv_mouse_dispatch [OF assms(1,2,3)] assms(4)
  by (simp add: mouse_hook_proc_def Let_def)

lemma captured_hook_thread_turn: "captured (hook_thread_turn now ic) \<Longrightarrow> captured ic"
  by (auto simp add: hook_thread_turn_def safety_timeout_check_def
      split: if_splits list.splits)

lemma inv_primary_step:
  "suppress_implies_remote s \<Longrightarrow> suppress_implies_remote (primary_step ev s)"
proof (cases ev)
  case StartCapture
  assume "suppress_implies_remote s"
  then show ?thesis using StartCapture by (simp add: start_def suppress_implies_remote_def)
next
  case (KeyboardHook e nCode wParam kb c a)
  assume "suppress_implies_remote s"
  then show ?thesis
    using inv_keyboard_hook [of "on_key e"] inv_on_key KeyboardHook by simp
next
  case (MouseHook e nCode wParam ms)
  assume "suppress_implies_remote s"
  then show ?thesis
    using inv_mouse_hook [of "on_mouse_move e" "on_mouse_button e" "on_mouse_scroll e"]
      inv_on_mouse_move inv_on_mouse_button inv_on_mouse_scroll MouseHook by simp
next
  case (HookThreadTurn now)
  assume "suppress_implies_remote s"
  then show ?thesis using HookThreadTurn captured_hook_thread_turn [of now "input_capture s"]
    by (auto simp add: suppress_implies_remote_def)
next
  case (ClientAccepted e cip junk)
  assume "suppress_implies_remote s"
  then show ?thesis using ClientAccepted
    by (simp add: client_accepted_def Let_def) (simp add: suppress_implies_remote_def)
next
  case (ClientDisconnected e cip)
  then show ?thesis by (simp add: client_disconnected_def Let_def inv_release_to_local)
next
  case (Datagram r p i n)
  assume "suppress_implies_remote s"
  then show ?thesis using Datagram
    by (simp add: on_datagram_def suppress_implies_remote_def split: option.splits)
next
  case (RemoveStale n)
  assume "suppress_implies_remote s"
  then show ?thesis using RemoveStale by (simp add: remove_stale_def suppress_implies_remote_def)
next
  case (DragTo i x y)
  assume "suppress_implies_remote s"
  then show ?thesis using DragTo by (simp add: drag_to_def suppress_implies_remote_def)
next
  case StopCapture
  then show ?thesis by (simp add: stop_def Let_def suppress_implies_remote_def)
qed

lemma inv_run: "suppress_implies_remote s \<Longrightarrow> suppress_implies_remote (run evs s)"
  by (induction evs arbitrary: s) (simp_all add: inv_primary_step)

lemma inv_init: "suppress_implies_remote (init nm w h junk)"
  by (simp add: suppress_implies_remote_def init_def)

text \<open>
  The invariant itself holds: in every state the primary reaches from its initial
  state, at the boundaries of hook calls and thread steps, suppress is on only
  while the focus is remote.
\<close>

lemma suppress_only_while_remote:
  "captured (input_capture (run evs (init nm w h junk))) \<longrightarrow>
   active_on_remote (run evs (init nm w h junk))"
  using inv_run [OF inv_init, of evs nm w h junk]
  by (simp add: suppress_implies_remote_def)

text \<open>
  A send that fails while the focus is remote returns focus and drops suppress in
  the mouse, button, scroll and key forwarding paths.
\<close>

lemma failed_send_reverts:
  assumes "sent e \<le> 0" "active_on_remote s" "active_client s"
  shows "\<not> active_on_remote (on_mouse_move e x y dx dy s) \<and>
         \<not> captured (input_capture (on_mouse_move e x y dx dy s))"
    and "\<not> active_on_remote (on_mouse_button e b p s) \<and>
         \<not> captured (input_capture (on_mouse_button e b p s))"
    and "\<not> active_on_remote (on_mouse_scroll e dx dy s) \<and>
         \<not> captured (input_capture (on_mouse_scroll e dx dy s))"
    and "\<not> active_on_remote (on_key e vk sc fl p s) \<and>
         \<not> captured (input_capture (on_key e vk sc fl p s))"
  using assms
  by (auto simp add: on_mouse_move_def on_mouse_button_def on_mouse_scroll_def on_key_def Let_def
      release_to_local_def capture_input_def split: prod.splits)

text \<open>So does the edge switch when its SwitchScreen cannot be sent.\<close>

lemma failed_edge_switch_reverts:
  assumes "sent e \<le> 0" "\<not> active_on_remote s" "\<not> captured (input_capture s)"
  shows "\<not> active_on_remote (on_mouse_move e x y dx dy s) \<and>
         \<not> captured (input_capture (on_mouse_move e x y dx dy s)) \<and>
         wire (on_mouse_move e x y dx dy s) = wire s"
  using assms
  by (auto simp add: on_mouse_move_def Let_def release_to_local_def capture_input_def
      split: prod.splits)

text \<open>
  C5 at its failing input. With local focus and a valid client socket, F8 is
  pressed and the send of its SwitchScreen fails. The callback has already set
  focus to remote and capture on; it leaves both so, nothing is on the wire, and the
  key is blocked.
\<close>

theorem C5_f8_failed_send_stays_remote:
  "\<not> active_on_remote local_state \<and> sent failed_send_env \<le> 0 \<and>
   keyboard_hook_proc (on_key failed_send_env) 5000 0 WM_KEYDOWN
       \<lparr>vkCode = VK_F8, scanCode = 66, flags = 0\<rparr> False False local_state
     = (Blocked,
        local_state
          \<lparr>active_on_remote := True,
           input_capture :=
             (input_capture local_state)\<lparr>captured := True, last_activity := 5000\<rparr>\<rparr>)"
  by (simp add: keyboard_hook_proc_def is_emergency_key_def VK_defs WM_defs Let_def on_key_def
      local_state_def init_def failed_send_env_def touch_activity_def capture_input_def)

section \<open>Leaving the primary through an edge\<close>

text \<open>
  The loop of the move callback finds a neighbour exactly when one exists, as long
  as the sums it forms are values an \<open>int\<close> can hold.
\<close>

lemma found_neighbor_iff:
  assumes "fits_int (layout_x loc + screen_width loc)"
    and "fits_int (layout_y loc + screen_height loc)"
    and "fits_int (layout_x loc + pos)"
    and "fits_int (layout_y loc + pos)"
    and "\<forall>peer \<in> set cs. name peer \<noteq> me \<and> is_connected peer \<longrightarrow>
           fits_int (layout_x peer + screen_width peer) \<and>
           fits_int (layout_y peer + screen_height peer)"
  shows "found_neighbor me loc edge pos cs =
     (\<exists>peer \<in> set cs. name peer \<noteq> me \<and> is_connected peer \<and> flush_peer loc edge pos peer)"
  using assms(5)
proof (induction cs)
  case Nil
  then show ?case by simp
next
  case (Cons c cs)
  have IH: "found_neighbor me loc edge pos cs =
     (\<exists>peer \<in> set cs. name peer \<noteq> me \<and> is_connected peer \<and> flush_peer loc edge pos peer)"
    using Cons by simp
  show ?case
  proof (cases "name c \<noteq> me \<and> is_connected c")
    case False
    then show ?thesis using IH by auto
  next
    case True
    then have fc: "i32 (layout_x c + screen_width c) = layout_x c + screen_width c"
      "i32 (layout_y c + screen_height c) = layout_y c + screen_height c"
      using Cons.prems by (simp_all add: i32_id)
    have fl: "i32 (layout_x loc + screen_width loc) = layout_x loc + screen_width loc"
      "i32 (layout_y loc + screen_height loc) = layout_y loc + screen_height loc"
      "i32 (layout_x loc + pos) = layout_x loc + pos"
      "i32 (layout_y loc + pos) = layout_y loc + pos"
      using assms(1-4) by (simp_all add: i32_id)
    show ?thesis
    proof (cases "flush_peer loc edge pos c")
      case yes: True
      then have "found_neighbor me loc edge pos (c # cs)"
        using True by (auto simp add: flush_peer_def Let_def fc fl)
      then show ?thesis using True yes by auto
    next
      case no: False
      then have "found_neighbor me loc edge pos (c # cs) = found_neighbor me loc edge pos cs"
        using True by (auto simp add: flush_peer_def Let_def fc fl)
      then show ?thesis using IH no by auto
    qed
  qed
qed

text \<open>Which edge the callback takes the cursor to be on.\<close>

lemma detect_edge_cases:
  "detect_edge loc x y = (True, edge, pos) \<longleftrightarrow>
     (x \<le> 0 \<and> edge = ScreenEdge_LEFT \<and> pos = y)
   \<or> (0 < x \<and> i32 (screen_width loc - 1) \<le> x \<and> edge = ScreenEdge_RIGHT \<and> pos = y)
   \<or> (0 < x \<and> x < i32 (screen_width loc - 1) \<and> y \<le> 0 \<and> edge = ScreenEdge_TOP \<and> pos = x)
   \<or> (0 < x \<and> x < i32 (screen_width loc - 1) \<and> 0 < y \<and> i32 (screen_height loc - 1) \<le> y \<and>
       edge = ScreenEdge_BOTTOM \<and> pos = x)"
  by (auto simp add: detect_edge_def)

text \<open>The edge written into the SwitchScreen event is the one facing the exit edge.\<close>

lemma entry_edge_for_opposite:
  assumes "detect_edge loc x y = (True, edge, pos)"
  shows "entry_edge_for edge = opposite_edge edge"
proof -
  from assms have "edge = ScreenEdge_LEFT \<or> edge = ScreenEdge_RIGHT \<or> edge = ScreenEdge_TOP
      \<or> edge = ScreenEdge_BOTTOM"
    by (auto simp add: detect_edge_def split: if_splits)
  then show ?thesis
    by (auto simp add: entry_edge_for_def opposite_edge_def ScreenEdge_defs)
qed

text \<open>
  C1, as the code has it. The primary has local focus and the cursor of a mouse
  move is on the edge \<open>edge\<close> at coordinate \<open>pos\<close> (the edge the callback
  picks, LEFT and RIGHT before TOP and BOTTOM), in a topology whose layout sums
  are values a 32-bit \<open>int\<close> can hold. If the client socket is valid and the send
  succeeds, focus becomes remote exactly when the topology has a connected peer,
  other than the local machine, flush on that edge around \<open>pos\<close>; suppress is
  then on and the SwitchScreen frame for the facing edge of the peer is the one
  thing sent. With no such peer the state is unchanged, socket or not: focus stays
  local and nothing is sent.
\<close>

theorem C1_edge_switch_iff:
  assumes "detect_edge (local_info s) x y = (True, edge, pos)"
    and "\<not> active_on_remote s"
    and "layout_sums_fit s pos"
  shows "(active_client s \<and> 0 < sent e \<longrightarrow>
            (active_on_remote (on_mouse_move e x y dx dy s) \<longleftrightarrow> has_flush_peer s edge pos) \<and>
            (has_flush_peer s edge pos \<longrightarrow>
               captured (input_capture (on_mouse_move e x y dx dy s)) \<and>
               wire (on_mouse_move e x y dx dy s) = wire s @ [switch_frame e edge pos]))
       \<and> (\<not> has_flush_peer s edge pos \<longrightarrow> on_mouse_move e x y dx dy s = s)"
proof -
  have n: "found_neighbor (computer_name s) (local_info s) edge pos (computers s)
             = has_flush_peer s edge pos"
    unfolding has_flush_peer_def
    using assms(3) by (intro found_neighbor_iff) (simp_all add: layout_sums_fit_def)
  have o: "entry_edge_for edge = opposite_edge edge"
    using assms(1) by (rule entry_edge_for_opposite)
  show ?thesis
    using assms(1,2)
    by (auto simp add: on_mouse_move_def Let_def n o push_wire_def app_warp_cursor_def
        capture_input_def warp_cursor_def switch_frame_def)
qed

theorem C1_witness:
  "detect_edge (local_info local_state) 1919 500 = (True, ScreenEdge_RIGHT, 500) \<and>
   \<not> active_on_remote local_state \<and> layout_sums_fit local_state 500 \<and>
   active_client local_state \<and> 0 < sent example_env \<and>
   has_flush_peer local_state ScreenEdge_RIGHT 500 \<and>
   active_on_remote (on_mouse_move example_env 1919 500 1 0 local_state) \<and>
   wire (on_mouse_move example_env 1919 500 1 0 local_state)
     = [[1, 0, 9, 0x88, 0x13, 0, 0, 5, 0, 1, 0xF4, 1, 0, 0]] \<and>
   detect_edge (local_info peer_above_state) 700 0 = (True, ScreenEdge_TOP, 700) \<and>
   \<not> active_on_remote peer_above_state \<and> layout_sums_fit peer_above_state 700 \<and>
   has_flush_peer peer_above_state ScreenEdge_TOP 700 \<and>
   active_on_remote (on_mouse_move example_env 700 0 0 (- 1) peer_above_state) \<and>
   wire (on_mouse_move example_env 700 0 0 (- 1) peer_above_state)
     = [[1, 0, 9, 0x88, 0x13, 0, 0, 5, 0, 4, 0xBC, 2, 0, 0]]"
proof -
  have e: "detect_edge (local_info local_state) 1919 500 = (True, ScreenEdge_RIGHT, 500)"
    by (simp add: local_state_def init_def init_local_info_def detect_edge_def i32_def)
  have l: "\<not> active_on_remote local_state"
    by (simp add: local_state_def init_def)
  have r: "layout_sums_fit local_state 500"
    by (simp add: layout_sums_fit_def fits_int_def local_state_def init_def init_local_info_def
        example_peer_def)
  have p: "has_flush_peer local_state ScreenEdge_RIGHT 500"
    by (simp add: local_state_def init_def init_local_info_def example_peer_def
        has_flush_peer_def flush_peer_def ScreenEdge_defs)
  have c: "active_client local_state \<and> 0 < sent example_env"
    by (simp add: local_state_def example_env_def)
  have w: "wire local_state = []" by (simp add: local_state_def init_def)
  have f: "switch_frame example_env ScreenEdge_RIGHT 500
             = [1, 0, 9, 0x88, 0x13, 0, 0, 5, 0, 1, 0xF4, 1, 0, 0]"
    by (simp add: switch_frame_def example_env_def serialize_packet_def bytes_PacketHeader_def
        bytes_SwitchScreenEvent_def le16_def le32_def opposite_edge_def ScreenEdge_defs
        EventType_defs PROTOCOL_VERSION_def)
  have e': "detect_edge (local_info peer_above_state) 700 0 = (True, ScreenEdge_TOP, 700)"
    by (simp add: peer_above_state_def local_state_def init_def init_local_info_def
        detect_edge_def i32_def)
  have l': "\<not> active_on_remote peer_above_state"
    by (simp add: peer_above_state_def local_state_def init_def)
  have r': "layout_sums_fit peer_above_state 700"
    by (simp add: layout_sums_fit_def fits_int_def peer_above_state_def local_state_def init_def
        init_local_info_def example_peer_def)
  have p': "has_flush_peer peer_above_state ScreenEdge_TOP 700"
    by (simp add: peer_above_state_def local_state_def init_def init_local_info_def
        example_peer_def has_flush_peer_def flush_peer_def ScreenEdge_defs)
  have c': "active_client peer_above_state" "wire peer_above_state = []"
    by (simp_all add: peer_above_state_def local_state_def init_def)
  have f': "switch_frame example_env ScreenEdge_TOP 700
             = [1, 0, 9, 0x88, 0x13, 0, 0, 5, 0, 4, 0xBC, 2, 0, 0]"
    by (simp add: switch_frame_def example_env_def serialize_packet_def bytes_PacketHeader_def
        bytes_SwitchScreenEvent_def le16_def le32_def opposite_edge_def ScreenEdge_defs
        EventType_defs PROTOCOL_VERSION_def)
  show ?thesis
    using C1_edge_switch_iff [OF e l r, of example_env 1 0]
      C1_edge_switch_iff [OF e' l' r', of example_env 0 "- 1"]
      e l r p c w f e' l' r' p' c' f'
    by simp
qed

text \<open>
  C1 as claimed fails in three situations, each with local focus, the cursor on
  the right edge and a connected peer flush there. When the send of the
  SwitchScreen frame fails, the callback undoes the switch: focus is local and
  suppress off afterwards, and nothing is on the wire. When the client socket is
  not valid, the callback returns at once, changing nothing. And when the peer
  announced a height of 2147483647 and lies with its top at 10, its extent
  contains row 500, but the sum \<open>10 + 2147483647\<close> wraps to a negative \<open>int\<close>: the
  loop finds no neighbour and the callback changes nothing, socket valid and send
  working.
\<close>

theorem C1_counterexample:
  "\<not> active_on_remote local_state \<and> active_client local_state \<and>
   detect_edge (local_info local_state) 1919 500 = (True, ScreenEdge_RIGHT, 500) \<and>
   has_flush_peer local_state ScreenEdge_RIGHT 500 \<and>
   \<not> active_on_remote (on_mouse_move failed_send_env 1919 500 1 0 local_state) \<and>
   \<not> captured (input_capture (on_mouse_move failed_send_env 1919 500 1 0 local_state)) \<and>
   wire (on_mouse_move failed_send_env 1919 500 1 0 local_state) = [] \<and>
   \<not> active_on_remote no_client_state \<and>
   has_flush_peer no_client_state ScreenEdge_RIGHT 500 \<and>
   on_mouse_move example_env 1919 500 1 0 no_client_state = no_client_state \<and>
   \<not> active_on_remote tall_peer_state \<and> active_client tall_peer_state \<and>
   0 < sent example_env \<and>
   detect_edge (local_info tall_peer_state) 1919 500 = (True, ScreenEdge_RIGHT, 500) \<and>
   has_flush_peer tall_peer_state ScreenEdge_RIGHT 500 \<and>
   on_mouse_move example_env 1919 500 1 0 tall_peer_state = tall_peer_state"
  by (simp add: no_client_state_def tall_peer_state_def local_state_def init_def
      init_local_info_def example_peer_def example_env_def
      detect_edge_def has_flush_peer_def flush_peer_def on_mouse_move_def ScreenEdge_defs
      failed_send_env_def release_to_local_def capture_input_def i32_def Let_def)

section \<open>Safety timeout\<close>

text \<open>
  The check itself, were it made with suppress on: suppress stays on exactly if at
  most 30000 ms (tick counts subtracted as DWORDs) have passed since the last
  activity. The subtraction wraps with the tick counter.
\<close>

lemma safety_check_releases_after:
  assumes "captured ic"
  shows "captured (safety_timeout_check now ic) \<longleftrightarrow> unat (now - last_activity ic) \<le> 30000"
  using assms
  by (simp add: safety_timeout_check_def word_less_nat_alt not_less [symmetric])

lemma safety_timeout_wraps:
  "\<not> captured (safety_timeout_check 30001 (ic\<lparr>captured := True, last_activity := 0xFFFFFFFF\<rparr>))"
  by (simp add: safety_timeout_check_def)

text \<open>
  The count starts when suppress is turned on, and an input event seen by a hook
  while suppress is on restarts it.
\<close>

lemma capture_starts_count:
  "captured (capture_input now True ic) \<and> last_activity (capture_input now True ic) = now"
  by (simp add: capture_input_def)

lemma mouse_event_restarts_count:
  "captured (input_capture s) \<Longrightarrow> last_activity (input_capture (touch_activity now s)) = now"
  by (simp add: touch_activity_def)

text \<open>
  Nothing but \<open>start\<close>, \<open>stop\<close> and the loop itself touches the queue of the hook
  thread.
\<close>

lemma queue_capture_input [simp]: "hook_queue (capture_input now b ic) = hook_queue ic"
  by (simp add: capture_input_def)

lemma queue_warp_cursor [simp]: "hook_queue (warp_cursor x y ic) = hook_queue ic"
  by (simp add: warp_cursor_def)

lemma queue_safety_timeout_check [simp]:
  "hook_queue (safety_timeout_check now ic) = hook_queue ic"
  by (simp add: safety_timeout_check_def)

lemma queue_helpers [simp]:
  "hook_queue (input_capture (release_to_local e s)) = hook_queue (input_capture s)"
  "hook_queue (input_capture (push_wire d s)) = hook_queue (input_capture s)"
  "hook_queue (input_capture (app_warp_cursor x y s)) = hook_queue (input_capture s)"
  "hook_queue (input_capture (touch_activity now s)) = hook_queue (input_capture s)"
  "hook_queue (input_capture (set_captured b s)) = hook_queue (input_capture s)"
  by (simp_all add: release_to_local_def push_wire_def app_warp_cursor_def touch_activity_def
      set_captured_def Let_def)

lemma queue_on_mouse_move [simp]:
  "hook_queue (input_capture (on_mouse_move e x y dx dy s)) = hook_queue (input_capture s)"
  by (simp add: on_mouse_move_def Let_def split: prod.split)

lemma queue_on_mouse_button [simp]:
  "hook_queue (input_capture (on_mouse_button e b p s)) = hook_queue (input_capture s)"
  by (simp add: on_mouse_button_def Let_def)

lemma queue_on_mouse_scroll [simp]:
  "hook_queue (input_capture (on_mouse_scroll e dx dy s)) = hook_queue (input_capture s)"
  by (simp add: on_mouse_scroll_def Let_def)

lemma queue_on_key [simp]:
  "hook_queue (input_capture (on_key e vk sc fl p s)) = hook_queue (input_capture s)"
  by (simp add: on_key_def Let_def)

lemma queue_keyboard_hook:
  "hook_queue (input_capture (snd (keyboard_hook_proc (on_key e) now nCode wParam kb c a s)))
     = hook_queue (input_capture s)"
  by (simp add: keyboard_hook_proc_def Let_def)

lemma queue_mouse_hook:
  "hook_queue (input_capture (snd (mouse_hook_proc (on_mouse_move e) (on_mouse_button e)
      (on_mouse_scroll e) now nCode wParam ms s))) = hook_queue (input_capture s)"
  by (simp add: mouse_hook_proc_def mouse_dispatch_def Let_def)

lemma queue_session_and_discovery [simp]:
  "hook_queue (input_capture (client_accepted e cip junk s)) = hook_queue (input_capture s)"
  "hook_queue (input_capture (client_disconnected e cip s)) = hook_queue (input_capture s)"
  "hook_queue (input_capture (on_datagram r p i n s)) = hook_queue (input_capture s)"
  "hook_queue (input_capture (remove_stale n s)) = hook_queue (input_capture s)"
  "hook_queue (input_capture (drag_to k x y s)) = hook_queue (input_capture s)"
  by (simp_all add: client_accepted_def client_disconnected_def on_datagram_def remove_stale_def
      drag_to_def Let_def split: option.split)

text \<open>
  So the only message that is ever in that queue is the \<open>WM_QUIT\<close> of \<open>stop\<close>.
\<close>

lemma only_quit_step: "only_quit_queued s \<Longrightarrow> only_quit_queued (primary_step ev s)"
proof (cases ev)
  case StartCapture
  then show ?thesis by (simp add: only_quit_queued_def start_def)
next
  case (KeyboardHook e nCode wParam kb c a)
  assume "only_quit_queued s"
  then show ?thesis using KeyboardHook by (simp add: only_quit_queued_def queue_keyboard_hook)
next
  case (MouseHook e nCode wParam ms)
  assume "only_quit_queued s"
  then show ?thesis using MouseHook by (simp add: only_quit_queued_def queue_mouse_hook)
next
  case (HookThreadTurn now)
  assume "only_quit_queued s"
  then show ?thesis using HookThreadTurn
    by (auto simp add: only_quit_queued_def hook_thread_turn_def split: list.splits)
next
  case StopCapture
  assume "only_quit_queued s"
  then show ?thesis using StopCapture by (simp add: only_quit_queued_def stop_def Let_def)
qed (simp_all add: only_quit_queued_def)

lemma only_quit_run: "only_quit_queued s \<Longrightarrow> only_quit_queued (run evs s)"
  by (induction evs arbitrary: s) (simp_all add: only_quit_step)

lemma only_quit_reachable: "only_quit_queued (run evs (init nm w h junk))"
  by (rule only_quit_run) (simp add: only_quit_queued_def init_def)

text \<open>
  With only \<open>WM_QUIT\<close> in the queue, a turn of the loop never reaches the safety
  check: it leaves everything but the queue as it was.
\<close>

lemma turn_without_check:
  assumes "only_quit_queued s"
  shows "captured (hook_thread_turn now (input_capture s)) = captured (input_capture s)"
    and "last_activity (hook_thread_turn now (input_capture s)) = last_activity (input_capture s)"
    and "running (hook_thread_turn now (input_capture s)) = running (input_capture s)"
  using assms
  by (auto simp add: only_quit_queued_def hook_thread_turn_def split: list.splits)

lemma run_append: "run (evs @ evs') s = run evs' (run evs s)"
  by (induction evs arbitrary: s) simp_all

text \<open>The state the primary is in after the run \<open>stranded_run\<close>.\<close>

lemma stranded_capture:
  "input_capture (run stranded_run (init ''A'' 1920 1080 0))
     = \<lparr>ic_screen_width = 0, ic_screen_height = 0, last_x = 0, last_y = 0,
        running = True, captured = True, last_activity = 4000,
        hook_thread_joinable = True, hook_queue = []\<rparr>"
  by (simp add: stranded_run_def init_def start_def client_accepted_def push_wire_def
      keyboard_hook_proc_def is_emergency_key_def f8_down_def VK_defs WM_defs touch_activity_def
      on_key_def capture_input_def Let_def)

text \<open>
  C8 on the code. From the initial state, after any sequence of events of the
  primary and at any tick, a turn of the hook thread's loop leaves suppress as it
  found it: the safety check is in the body of a loop whose \<open>GetMessage\<close> returns
  only for a queued message, and \<open>WM_QUIT\<close>, which ends the loop, is the only message
  the program ever posts to that thread. At the failing input suppress goes on at
  tick 4000 and nothing arrives afterwards; a turn of the loop at tick 40000, 36000
  ms later, leaves suppress on, although the check, had it been made then, would
  have released it.
\<close>

theorem C8_safety_check_never_made:
  "captured (input_capture (primary_step (HookThreadTurn now) (run evs (init nm w h junk))))
     = captured (input_capture (run evs (init nm w h junk))) \<and>
   captured (input_capture (run stranded_run (init ''A'' 1920 1080 0))) \<and>
   last_activity (input_capture (run stranded_run (init ''A'' 1920 1080 0))) = 4000 \<and>
   captured (input_capture (run (stranded_run @ [HookThreadTurn 40000]) (init ''A'' 1920 1080 0))) \<and>
   \<not> captured (safety_timeout_check 40000
        (input_capture (run stranded_run (init ''A'' 1920 1080 0))))"
proof -
  let ?s = "run evs (init nm w h junk)"
  have "captured (hook_thread_turn now (input_capture ?s)) = captured (input_capture ?s)"
    using only_quit_reachable [of evs nm w h junk] by (rule turn_without_check(1))
  then have g: "captured (input_capture (primary_step (HookThreadTurn now) ?s))
      = captured (input_capture ?s)"
    by simp
  have c: "captured (input_capture (run (stranded_run @ [HookThreadTurn 40000])
      (init ''A'' 1920 1080 0)))"
    by (simp add: run_append stranded_capture hook_thread_turn_def)
  show ?thesis
    using g c by (simp add: stranded_capture safety_timeout_check_def)
qed

section \<open>Discovery\<close>

text \<open>
  The loop that computes \<open>max_x\<close> yields the largest right edge, as long as every
  right edge is a value an \<open>int\<close> can hold.
\<close>

lemma Max_insert_max:
  "finite S \<Longrightarrow> Max (insert (max a b) S) = Max (insert a (insert b S))" for a :: int
  by (cases "S = {}") (simp_all add: max.assoc)

lemma max_right_fold:
  assumes "\<forall>c \<in> set cs. fits_int (layout_x c + screen_width c)"
  shows "foldl (\<lambda>max_x c. max max_x (i32 (layout_x c + screen_width c))) a cs
           = Max (insert a ((\<lambda>c. layout_x c + screen_width c) ` set cs))"
  using assms
proof (induction cs arbitrary: a)
  case Nil
  then show ?case by simp
next
  case (Cons c cs)
  have c: "i32 (layout_x c + screen_width c) = layout_x c + screen_width c"
    using Cons.prems by (simp add: i32_id)
  have "foldl (\<lambda>max_x c. max max_x (i32 (layout_x c + screen_width c))) a (c # cs)
          = Max (insert (max a (layout_x c + screen_width c))
                   ((\<lambda>c. layout_x c + screen_width c) ` set cs))"
    using Cons.IH [of "max a (layout_x c + screen_width c)"] Cons.prems by (simp add: c)
  also have "\<dots> = Max (insert a (insert (layout_x c + screen_width c)
                   ((\<lambda>c. layout_x c + screen_width c) ` set cs)))"
    by (rule Max_insert_max) simp
  finally show ?case by simp
qed

lemma max_right_rightmost:
  assumes "right_edges_fit cs"
  shows "max_right cs = rightmost_edge cs" and "i32 (max_right cs + 50) = rightmost_edge cs + 50"
proof -
  show m: "max_right cs = rightmost_edge cs"
    using assms max_right_fold [of cs 0]
    by (simp add: right_edges_fit_def max_right_def rightmost_edge_def)
  show "i32 (max_right cs + 50) = rightmost_edge cs + 50"
    using assms by (simp add: m right_edges_fit_def i32_id)
qed

lemma update_known_None:
  "update_known packet ip_str now cs = None \<longleftrightarrow> dp_name packet \<notin> name ` set cs"
  by (induction cs) auto

lemma update_known_Some:
  "update_known packet ip_str now cs = Some cs' \<Longrightarrow>
   \<exists>pre c post. cs = pre @ c # post \<and> name c = dp_name packet \<and>
      dp_name packet \<notin> name ` set pre \<and> cs' = pre @ refreshed packet ip_str now c # post"
proof (induction cs arbitrary: cs')
  case Nil
  then show ?case by simp
next
  case (Cons a cs)
  show ?case
  proof (cases "name a = dp_name packet")
    case True
    with Cons.prems have "cs' = refreshed packet ip_str now a # cs"
      by auto
    with True show ?thesis by (intro exI [of _ "[]"]) auto
  next
    case False
    with Cons.prems obtain t where t: "update_known packet ip_str now cs = Some t" "cs' = a # t"
      by auto
    from Cons.IH [OF t(1)] obtain pre c post where
      "cs = pre @ c # post" "name c = dp_name packet" "dp_name packet \<notin> name ` set pre"
      "t = pre @ refreshed packet ip_str now c # post" by blast
    with False t(2) show ?thesis
      by (intro exI [of _ "a # pre"] exI [of _ c] exI [of _ post]) auto
  qed
qed

lemma update_known_known:
  assumes "dp_name packet \<in> name ` set cs"
  shows "\<exists>pre c post. cs = pre @ c # post \<and> name c = dp_name packet \<and>
      dp_name packet \<notin> name ` set pre \<and>
      update_known packet ip_str now cs = Some (pre @ refreshed packet ip_str now c # post)"
proof -
  obtain cs' where c: "update_known packet ip_str now cs = Some cs'"
    using assms update_known_None [of packet ip_str now cs]
    by (cases "update_known packet ip_str now cs") auto
  from update_known_Some [OF c] c show ?thesis by metis
qed

text \<open>What the reaper keeps.\<close>

lemma not_stale_iff:
  "(\<not> is_stale me now c) =
     (name c = [] \<or> name c = me \<or> unat (now - last_seen c) \<le> 10000)"
  by (auto simp add: is_stale_def word_less_nat_alt)

text \<open>
  C9, as the code has it. A datagram shorter than the packet, without the magic,
  or carrying the local name changes nothing. Any other one, if a computer of that
  name is present, gives the first such computer the sender's address and the
  packet's port, screen size and role, and the current tick as its time, leaving
  its position and everything else as they are; if there is none, and the right
  edges of the layout are values a 32-bit \<open>int\<close> can hold, it appends a new
  computer with the packet's data, not connected, at \<open>layout_y = 0\<close> and
  \<open>layout_x\<close> 50 beyond the largest right edge (taken from 0 on). The reaper
  keeps, in their order, exactly the computers that have an empty name, the local
  name, or were seen at most 10000 ms ago, so the local computer is never removed.
\<close>

theorem C9_discovery_upsert_and_expiry:
  "(received < sizeof_DiscoveryPacket \<or> dp_magic packet \<noteq> ''MSHR'' \<or>
      dp_name packet = computer_name s \<longrightarrow> on_datagram received packet ip_str now s = s)
   \<and> (sizeof_DiscoveryPacket \<le> received \<and> dp_magic packet = ''MSHR'' \<and>
       dp_name packet \<noteq> computer_name s \<longrightarrow>
        (dp_name packet \<in> name ` set (computers s) \<longrightarrow>
           (\<exists>pre c post. computers s = pre @ c # post \<and> name c = dp_name packet \<and>
              dp_name packet \<notin> name ` set pre \<and>
              on_datagram received packet ip_str now s
                = s\<lparr>computers :=
                      pre @ c\<lparr>ip := ip_str, port := dp_port packet,
                               screen_width := dp_screen_width packet,
                               screen_height := dp_screen_height packet,
                               is_server := (dp_is_server packet = 1),
                               last_seen := now\<rparr> # post\<rparr>))
      \<and> (dp_name packet \<notin> name ` set (computers s) \<and> right_edges_fit (computers s) \<longrightarrow>
           on_datagram received packet ip_str now s
             = s\<lparr>computers :=
                   computers s @
                     [\<lparr>name = dp_name packet, ip = ip_str, port = dp_port packet,
                       screen_width = dp_screen_width packet,
                       screen_height = dp_screen_height packet,
                       is_server = (dp_is_server packet = 1), is_connected = False,
                       last_seen = now,
                       layout_x = rightmost_edge (computers s) + 50, layout_y = 0\<rparr>]\<rparr>))
   \<and> remove_stale now s
       = s\<lparr>computers :=
             filter (\<lambda>c. name c = [] \<or> name c = computer_name s \<or>
                          unat (now - last_seen c) \<le> 10000) (computers s)\<rparr>
   \<and> (\<forall>c \<in> set (computers s).
         name c = computer_name s \<longrightarrow> c \<in> set (computers (remove_stale now s)))"
proof -
  have pos: "0 < sizeof_DiscoveryPacket" by (simp add: sizeof_DiscoveryPacket_def)
  have A: "received < sizeof_DiscoveryPacket \<or> dp_magic packet \<noteq> ''MSHR'' \<or>
      dp_name packet = computer_name s \<longrightarrow> on_datagram received packet ip_str now s = s"
    by (auto simp add: on_datagram_def)
  have B: "dp_name packet \<in> name ` set (computers s) \<longrightarrow>
           (\<exists>pre c post. computers s = pre @ c # post \<and> name c = dp_name packet \<and>
              dp_name packet \<notin> name ` set pre \<and>
              on_datagram received packet ip_str now s
                = s\<lparr>computers :=
                      pre @ c\<lparr>ip := ip_str, port := dp_port packet,
                               screen_width := dp_screen_width packet,
                               screen_height := dp_screen_height packet,
                               is_server := (dp_is_server packet = 1),
                               last_seen := now\<rparr> # post\<rparr>)"
    if h: "sizeof_DiscoveryPacket \<le> received \<and> dp_magic packet = ''MSHR'' \<and>
       dp_name packet \<noteq> computer_name s"
  proof
    assume k: "dp_name packet \<in> name ` set (computers s)"
    from update_known_known [OF k, of ip_str now] obtain pre c post where
      p: "computers s = pre @ c # post" "name c = dp_name packet"
         "dp_name packet \<notin> name ` set pre"
         "update_known packet ip_str now (computers s)
            = Some (pre @ refreshed packet ip_str now c # post)" by blast
    have "on_datagram received packet ip_str now s
            = s\<lparr>computers :=
                  pre @ c\<lparr>ip := ip_str, port := dp_port packet,
                           screen_width := dp_screen_width packet,
                           screen_height := dp_screen_height packet,
                           is_server := (dp_is_server packet = 1),
                           last_seen := now\<rparr> # post\<rparr>"
      using h pos p(4) by (simp add: on_datagram_def refreshed_def)
    with p(1-3) show "\<exists>pre c post. computers s = pre @ c # post \<and> name c = dp_name packet \<and>
              dp_name packet \<notin> name ` set pre \<and>
              on_datagram received packet ip_str now s
                = s\<lparr>computers :=
                      pre @ c\<lparr>ip := ip_str, port := dp_port packet,
                               screen_width := dp_screen_width packet,
                               screen_height := dp_screen_height packet,
                               is_server := (dp_is_server packet = 1),
                               last_seen := now\<rparr> # post\<rparr>" by blast
  qed
  have C: "dp_name packet \<notin> name ` set (computers s) \<and> right_edges_fit (computers s) \<longrightarrow>
           on_datagram received packet ip_str now s
             = s\<lparr>computers :=
                   computers s @
                     [\<lparr>name = dp_name packet, ip = ip_str, port = dp_port packet,
                       screen_width = dp_screen_width packet,
                       screen_height = dp_screen_height packet,
                       is_server = (dp_is_server packet = 1), is_connected = False,
                       last_seen = now,
                       layout_x = rightmost_edge (computers s) + 50, layout_y = 0\<rparr>]\<rparr>"
    if h: "sizeof_DiscoveryPacket \<le> received \<and> dp_magic packet = ''MSHR'' \<and>
       dp_name packet \<noteq> computer_name s"
  proof
    assume k: "dp_name packet \<notin> name ` set (computers s) \<and> right_edges_fit (computers s)"
    then have u: "update_known packet ip_str now (computers s) = None"
      using update_known_None by blast
    show "on_datagram received packet ip_str now s
             = s\<lparr>computers :=
                   computers s @
                     [\<lparr>name = dp_name packet, ip = ip_str, port = dp_port packet,
                       screen_width = dp_screen_width packet,
                       screen_height = dp_screen_height packet,
                       is_server = (dp_is_server packet = 1), is_connected = False,
                       last_seen = now,
                       layout_x = rightmost_edge (computers s) + 50, layout_y = 0\<rparr>]\<rparr>"
      using h pos u max_right_rightmost(2) [of "computers s"] k
      by (simp add: on_datagram_def new_computer_def)
  qed
  have D: "remove_stale now s
       = s\<lparr>computers :=
             filter (\<lambda>c. name c = [] \<or> name c = computer_name s \<or>
                          unat (now - last_seen c) \<le> 10000) (computers s)\<rparr>"
    by (simp add: remove_stale_def not_stale_iff)
  have E: "\<forall>c \<in> set (computers s).
         name c = computer_name s \<longrightarrow> c \<in> set (computers (remove_stale now s))"
    by (simp add: remove_stale_def is_stale_def)
  from A B C D E show ?thesis by blast
qed

text \<open>The reference topologies, computed.\<close>

lemma computers_one_peer_state:
  "computers one_peer_state
     = [init_local_info ''A'' 1920 1080 0,
        \<lparr>name = ''P'', ip = ''10.0.0.2'', port = 24800, screen_width = 1920,
         screen_height = 1080, is_server = False, is_connected = False, last_seen = 1000,
         layout_x = 1970, layout_y = 0\<rparr>]"
  by (simp add: one_peer_state_def on_datagram_def announce_P_def init_def init_local_info_def
      sizeof_DiscoveryPacket_def new_computer_def max_right_def i32_def)

lemma computers_two_peer_state:
  "computers two_peer_state
     = [init_local_info ''A'' 1920 1080 0,
        \<lparr>name = ''P'', ip = ''10.0.0.2'', port = 24800, screen_width = 1920,
         screen_height = 1080, is_server = False, is_connected = False, last_seen = 1000,
         layout_x = 1970, layout_y = 0\<rparr>,
        \<lparr>name = ''Q'', ip = ''10.0.0.3'', port = 24800, screen_width = 2560,
         screen_height = 1440, is_server = False, is_connected = False, last_seen = 15000,
         layout_x = 3940, layout_y = 0\<rparr>]"
proof -
  have n: "computer_name one_peer_state = ''A''"
    by (simp add: one_peer_state_def on_datagram_def init_def)
  show ?thesis
    by (simp add: two_peer_state_def on_datagram_def n computers_one_peer_state announce_Q_def
        announce_P_def init_local_info_def sizeof_DiscoveryPacket_def new_computer_def
        max_right_def i32_def)
qed

lemma computer_name_two_peer_state: "computer_name two_peer_state = ''A''"
  by (simp add: two_peer_state_def one_peer_state_def on_datagram_def init_def
      split: option.split)

theorem C9_witness:
  "sizeof_DiscoveryPacket \<le> 80 \<and> dp_magic announce_P = ''MSHR'' \<and>
   dp_name announce_P \<noteq> computer_name (init ''A'' 1920 1080 0) \<and>
   dp_name announce_P \<notin> name ` set (computers (init ''A'' 1920 1080 0)) \<and>
   right_edges_fit (computers (init ''A'' 1920 1080 0)) \<and>
   map (\<lambda>c. (name c, layout_x c, layout_y c, is_connected c, last_seen c))
       (computers (on_datagram 80 announce_P ''10.0.0.2'' 1000 (init ''A'' 1920 1080 0)))
     = [(''A'', 0, 0, False, 0), (''P'', 1970, 0, False, 1000)] \<and>
   dp_name announce_Q \<notin> name ` set (computers one_peer_state) \<and>
   right_edges_fit (computers one_peer_state) \<and>
   map (\<lambda>c. (name c, layout_x c, layout_y c, is_connected c, last_seen c))
       (computers (on_datagram 80 announce_Q ''10.0.0.3'' 15000 one_peer_state))
     = [(''A'', 0, 0, False, 0), (''P'', 1970, 0, False, 1000), (''Q'', 3940, 0, False, 15000)] \<and>
   dp_name (announce_P\<lparr>dp_screen_width := 1280, dp_screen_height := 720\<rparr>)
     \<in> name ` set (computers two_peer_state) \<and>
   map (\<lambda>c. (name c, ip c, screen_width c, screen_height c, last_seen c, layout_x c))
       (computers (on_datagram 80 (announce_P\<lparr>dp_screen_width := 1280, dp_screen_height := 720\<rparr>)
          ''10.0.0.9'' 16000 two_peer_state))
     = [(''A'', [], 1920, 1080, 0, 0), (''P'', ''10.0.0.9'', 1280, 720, 16000, 1970),
        (''Q'', ''10.0.0.3'', 2560, 1440, 15000, 3940)] \<and>
   map name (computers (remove_stale 20000 two_peer_state)) = [''A'', ''Q'']"
proof -
  have i: "computers (init ''A'' 1920 1080 0) = [init_local_info ''A'' 1920 1080 0]"
    "computer_name (init ''A'' 1920 1080 0) = ''A''"
    by (simp_all add: init_def)
  have h: "sizeof_DiscoveryPacket \<le> 80" "dp_magic announce_P = ''MSHR''"
    "dp_magic announce_Q = ''MSHR''" "dp_name announce_P = ''P''" "dp_name announce_Q = ''Q''"
    "dp_port announce_P = 24800" "dp_port announce_Q = 24800"
    "dp_screen_width announce_P = 1920" "dp_screen_height announce_P = 1080"
    "dp_screen_width announce_Q = 2560" "dp_screen_height announce_Q = 1440"
    "dp_is_server announce_P = 0" "dp_is_server announce_Q = 0"
    by (simp_all add: sizeof_DiscoveryPacket_def announce_P_def announce_Q_def)
  have n1: "computer_name one_peer_state = ''A''"
    by (simp add: one_peer_state_def on_datagram_def init_def)
  have f0: "right_edges_fit [init_local_info ''A'' 1920 1080 0]"
    "rightmost_edge [init_local_info ''A'' 1920 1080 0] = 1920"
    by (simp_all add: right_edges_fit_def rightmost_edge_def fits_int_def init_local_info_def)
  have f1: "right_edges_fit (computers one_peer_state)"
    "rightmost_edge (computers one_peer_state) = 3890"
    by (simp_all add: computers_one_peer_state right_edges_fit_def rightmost_edge_def
        fits_int_def init_local_info_def)
  have u: "map (\<lambda>c. (name c, ip c, screen_width c, screen_height c, last_seen c, layout_x c))
       (computers (on_datagram 80 (announce_P\<lparr>dp_screen_width := 1280, dp_screen_height := 720\<rparr>)
          ''10.0.0.9'' 16000 two_peer_state))
     = [(''A'', [], 1920, 1080, 0, 0), (''P'', ''10.0.0.9'', 1280, 720, 16000, 1970),
        (''Q'', ''10.0.0.3'', 2560, 1440, 15000, 3940)]"
    by (simp add: on_datagram_def computers_two_peer_state computer_name_two_peer_state
        announce_P_def sizeof_DiscoveryPacket_def init_local_info_def refreshed_def)
  have k: "dp_name (announce_P\<lparr>dp_screen_width := 1280, dp_screen_height := 720\<rparr>)
     \<in> name ` set (computers two_peer_state)"
    by (simp add: computers_two_peer_state announce_P_def)
  have m: "name (init_local_info ''A'' 1920 1080 0) = ''A''"
    "layout_x (init_local_info ''A'' 1920 1080 0) = 0"
    "layout_y (init_local_info ''A'' 1920 1080 0) = 0"
    "is_connected (init_local_info ''A'' 1920 1080 0) = False"
    "last_seen (init_local_info ''A'' 1920 1080 0) = 0"
    by (simp_all add: init_local_info_def)
  show ?thesis
    using C9_discovery_upsert_and_expiry
        [of 80 announce_P "init ''A'' 1920 1080 0" "''10.0.0.2''" 1000]
      C9_discovery_upsert_and_expiry [of 80 announce_Q one_peer_state "''10.0.0.3''" 15000]
      C9_discovery_upsert_and_expiry [of 80 announce_Q two_peer_state "''10.0.0.3''" 20000]
      i h n1 f0 f1 u k m
    by (simp add: computers_one_peer_state computers_two_peer_state
        computer_name_two_peer_state)
qed

text \<open>
  C9 as claimed fails in three places. The first peer announced to a primary of
  width 1920 is placed at \<open>layout_x = 1970\<close>, 50 clear of the local right edge at
  1920, so it is not flush with it. A peer announced with an empty name, last seen
  at tick 1000, is still in the topology after the reaper has run at tick 4000000.
  And after a peer has announced a width of 2147483647, its right edge
  \<open>1970 + 2147483647\<close> wraps to a negative \<open>int\<close> in the placement loop, so the next
  new peer is put at 1970 as well, on top of it and not to its right.
\<close>

theorem C9_counterexample:
  "layout_x (init_local_info ''A'' 1920 1080 0) + screen_width (init_local_info ''A'' 1920 1080 0)
     = 1920 \<and>
   map layout_x (computers (on_datagram 80 announce_P ''10.0.0.2'' 1000 (init ''A'' 1920 1080 0)))
     = [0, 1970] \<and>
   map name (computers (remove_stale 4000000
       (on_datagram 80 announce_nameless ''10.0.0.3'' 1000 (init ''A'' 1920 1080 0))))
     = [''A'', []] \<and>
   map (\<lambda>c. (name c, layout_x c, screen_width c)) (computers wide_peer_state)
     = [(''A'', 0, 1920), (''P'', 1970, 2147483647)] \<and>
   map (\<lambda>c. (name c, layout_x c))
       (computers (on_datagram 80 announce_Q ''10.0.0.3'' 2000 wide_peer_state))
     = [(''A'', 0), (''P'', 1970), (''Q'', 1970)]"
proof -
  have w: "computers wide_peer_state
     = [init_local_info ''A'' 1920 1080 0,
        \<lparr>name = ''P'', ip = ''10.0.0.2'', port = 24800, screen_width = 2147483647,
         screen_height = 1080, is_server = False, is_connected = False, last_seen = 1000,
         layout_x = 1970, layout_y = 0\<rparr>]"
    "computer_name wide_peer_state = ''A''"
    by (simp_all add: wide_peer_state_def on_datagram_def announce_wide_def announce_P_def
        init_def init_local_info_def sizeof_DiscoveryPacket_def new_computer_def max_right_def
        i32_def)
  have q: "map (\<lambda>c. (name c, layout_x c))
       (computers (on_datagram 80 announce_Q ''10.0.0.3'' 2000 wide_peer_state))
     = [(''A'', 0), (''P'', 1970), (''Q'', 1970)]"
    by (simp add: on_datagram_def w announce_Q_def announce_P_def init_local_info_def
        sizeof_DiscoveryPacket_def new_computer_def max_right_def i32_def)
  have r: "layout_x (init_local_info ''A'' 1920 1080 0)
        + screen_width (init_local_info ''A'' 1920 1080 0) = 1920 \<and>
   map layout_x (computers (on_datagram 80 announce_P ''10.0.0.2'' 1000 (init ''A'' 1920 1080 0)))
     = [0, 1970] \<and>
   map name (computers (remove_stale 4000000
       (on_datagram 80 announce_nameless ''10.0.0.3'' 1000 (init ''A'' 1920 1080 0))))
     = [''A'', []]"
    by (simp add: on_datagram_def announce_P_def announce_nameless_def init_def
        init_local_info_def sizeof_DiscoveryPacket_def new_computer_def max_right_def
        remove_stale_def is_stale_def i32_def)
  show ?thesis using r q by (simp add: w init_local_info_def)
qed

text \<open>
  The local computer is in the topology of every state the primary reaches.
\<close>

lemma names_mark_connected [simp]: "map name (mark_connected cip b cs) = map name cs"
  by (induction cs) auto

lemma same_topology_refl [simp]: "same_topology s s"
  by (simp add: same_topology_def)

lemma same_topology_helpers [simp]:
  "same_topology (release_to_local e t) s = same_topology t s"
  "same_topology (push_wire d t) s = same_topology t s"
  "same_topology (app_warp_cursor x y t) s = same_topology t s"
  "same_topology (touch_activity now t) s = same_topology t s"
  "same_topology (set_captured b t) s = same_topology t s"
  "same_topology (t\<lparr>active_on_remote := r\<rparr>) s = same_topology t s"
  "same_topology (t\<lparr>input_capture := ic\<rparr>) s = same_topology t s"
  by (simp_all add: same_topology_def release_to_local_def push_wire_def app_warp_cursor_def
      touch_activity_def set_captured_def Let_def)

lemma same_topology_on_mouse_move [simp]: "same_topology (on_mouse_move e x y dx dy s) s"
  by (simp add: on_mouse_move_def Let_def split: prod.split)

lemma same_topology_on_mouse_button [simp]: "same_topology (on_mouse_button e b p s) s"
  by (simp add: on_mouse_button_def Let_def)

lemma same_topology_on_mouse_scroll [simp]: "same_topology (on_mouse_scroll e dx dy s) s"
  by (simp add: on_mouse_scroll_def Let_def)

lemma same_topology_on_key [simp]: "same_topology (on_key e vk sc fl p s) s"
  by (simp add: on_key_def Let_def)

lemma same_topology_callbacks [simp]:
  "same_topology (on_mouse_move e x y dx dy t) s = same_topology t s"
  "same_topology (on_mouse_button e b p t) s = same_topology t s"
  "same_topology (on_mouse_scroll e dx dy t) s = same_topology t s"
  "same_topology (on_key e vk sc fl p t) s = same_topology t s"
  using same_topology_on_mouse_move [of e x y dx dy t] same_topology_on_mouse_button [of e b p t]
    same_topology_on_mouse_scroll [of e dx dy t] same_topology_on_key [of e vk sc fl p t]
  by (auto simp add: same_topology_def)

lemma same_topology_keyboard_hook:
  "same_topology (snd (keyboard_hook_proc (on_key e) now nCode wParam kb c a s)) s"
  by (simp add: keyboard_hook_proc_def Let_def)

lemma same_topology_mouse_hook:
  "same_topology (snd (mouse_hook_proc (on_mouse_move e) (on_mouse_button e) (on_mouse_scroll e)
      now nCode wParam ms s)) s"
  by (simp add: mouse_hook_proc_def mouse_dispatch_def Let_def)

lemma local_present_step:
  assumes "computer_name s = nm" "nm \<in> name ` set (computers s)"
  shows "computer_name (primary_step ev s) = nm \<and> nm \<in> name ` set (computers (primary_step ev s))"
proof (cases ev)
  case StartCapture
  then show ?thesis using assms by simp
next
  case (KeyboardHook e nCode wParam kb c a)
  then show ?thesis
    using assms same_topology_keyboard_hook [of e "tick e" nCode wParam kb c a s]
    by (simp add: same_topology_def)
next
  case (MouseHook e nCode wParam ms)
  then show ?thesis
    using assms same_topology_mouse_hook [of e "tick e" nCode wParam ms s]
    by (simp add: same_topology_def)
next
  case (HookThreadTurn now)
  then show ?thesis using assms by simp
next
  case (ClientAccepted e cip junk)
  have "map name (computers (client_accepted e cip junk s)) = map name (computers s)"
    by (simp add: client_accepted_def Let_def push_wire_def)
  then have "name ` set (computers (client_accepted e cip junk s)) = name ` set (computers s)"
    by (metis set_map)
  then show ?thesis
    using assms ClientAccepted by (simp add: client_accepted_def Let_def push_wire_def)
next
  case (ClientDisconnected e cip)
  have "map name (computers (client_disconnected e cip s)) = map name (computers s)"
    by (simp add: client_disconnected_def Let_def release_to_local_def)
  then have "name ` set (computers (client_disconnected e cip s)) = name ` set (computers s)"
    by (metis set_map)
  then show ?thesis
    using assms ClientDisconnected
    by (simp add: client_disconnected_def Let_def release_to_local_def)
next
  case (Datagram r p i n)
  show ?thesis
  proof (cases "update_known p i n (computers s)")
    case None
    then show ?thesis using assms Datagram by (auto simp add: on_datagram_def)
  next
    case (Some cs')
    from update_known_Some [OF Some] obtain pre c post where
      "computers s = pre @ c # post" "cs' = pre @ refreshed p i n c # post" by blast
    then have "name ` set cs' = name ` set (computers s)"
      by (simp add: refreshed_def)
    then show ?thesis using assms Datagram Some by (auto simp add: on_datagram_def)
  qed
next
  case (RemoveStale n)
  then show ?thesis using assms by (auto simp add: remove_stale_def is_stale_def)
next
  case (DragTo i x y)
  have "map name (computers (drag_to i x y s)) = map name (computers s)"
    by (simp add: drag_to_def map_update list_update_same_conv)
  then have "name ` set (computers (drag_to i x y s)) = name ` set (computers s)"
    by (metis set_map)
  then show ?thesis using assms DragTo by (simp add: drag_to_def)
next
  case StopCapture
  then show ?thesis using assms by simp
qed

lemma local_present_run:
  "computer_name s = nm \<Longrightarrow> nm \<in> name ` set (computers s) \<Longrightarrow>
   computer_name (run evs s) = nm \<and> nm \<in> name ` set (computers (run evs s))"
proof (induction evs arbitrary: s)
  case Nil
  then show ?case by simp
next
  case (Cons ev evs)
  from local_present_step [OF Cons.prems, of ev] Cons.IH show ?case by simp
qed

lemma local_computer_always_present:
  "nm \<in> name ` set (computers (run evs (init nm w h junk)))"
  using local_present_run [of "init nm w h junk" nm evs]
  by (simp add: init_def init_local_info_def)

end
